theory Spec2Isabelle
  imports Complex_Main
begin

section \<open>DecodeSim: a shallow embedding of game.js\<close>

text \<open>
  The simulation core of \<^verbatim>\<open>src/game.js\<close>: vectors, particles, robots, artifacts, the
  scoring and pattern logic, the match clock and the start and end of a match.

  Conventions of the embedding.
  \<^item> JavaScript numbers that hold coordinates, velocities and angles are \<open>real\<close>; the
    counters (scores, \<open>timeLeft\<close>, \<open>lastTime\<close>, cooldown, particle life) are \<open>int\<close>.
  \<^item> The objects are mutable in the source; here every function takes the objects it
    mutates and returns them updated.  A method of a class takes \<open>this\<close> as an argument
    and returns it next to the global \<open>gameState\<close>.
  \<^item> An inventory entry is a reference to an object of \<open>gameState.artifacts\<close>; it is
    modelled by the position of that object in the collection.  The collection only
    grows during a match, and \<open>startGame\<close>, the only caller of \<open>spawnArtifacts\<close>,
    empties both inventories.
  \<^item> \<open>Math.random()\<close> reads the next value of a stream \<open>rng\<close> kept in the state;
    \<open>Date.now()\<close> is an argument of the functions that call it.
  \<^item> Of the page, only the message banner (its text and its \<open>hidden\<close> class) is kept;
    the score, timer, pattern and inventory displays and the canvas are left out, as is
    the timer that hides the banner two seconds after a pattern bonus.
  \<^item> A thrown exception is the result \<open>Threw\<close>, carrying the state as the mutations
    before the throw left it.
\<close>

subsection \<open>Constants\<close>

definition FIELD_WIDTH :: real where "FIELD_WIDTH = 2000"
definition FIELD_HEIGHT :: real where "FIELD_HEIGHT = 1400"
definition ROBOT_SIZE :: real where "ROBOT_SIZE = 40"
definition ARTIFACT_RADIUS :: real where "ARTIFACT_RADIUS = 8"
definition GOAL_SIZE :: real where "GOAL_SIZE = 120"
definition MAX_INVENTORY :: nat where "MAX_INVENTORY = 3"

definition COLORS_red :: string where "COLORS_red = ''#ff2a2a''"
definition COLORS_blue :: string where "COLORS_blue = ''#2a8aff''"

subsection \<open>Vector2\<close>

datatype Vector2 = Vector2 (vec_x: real) (vec_y: real)

definition Vector2_add :: "Vector2 \<Rightarrow> Vector2 \<Rightarrow> Vector2" where
  "Vector2_add u v = Vector2 (vec_x u + vec_x v) (vec_y u + vec_y v)"

definition Vector2_sub :: "Vector2 \<Rightarrow> Vector2 \<Rightarrow> Vector2" where
  "Vector2_sub u v = Vector2 (vec_x u - vec_x v) (vec_y u - vec_y v)"

definition Vector2_mult :: "Vector2 \<Rightarrow> real \<Rightarrow> Vector2" where
  "Vector2_mult u n = Vector2 (vec_x u * n) (vec_y u * n)"

definition Vector2_mag :: "Vector2 \<Rightarrow> real" where
  "Vector2_mag u = sqrt (vec_x u * vec_x u + vec_y u * vec_y u)"

definition Vector2_normalize :: "Vector2 \<Rightarrow> Vector2" where
  "Vector2_normalize u =
     (let m = Vector2_mag u in if m > 0 then Vector2_mult u (1 / m) else u)"

definition Vector2_copy :: "Vector2 \<Rightarrow> Vector2" where
  "Vector2_copy u = Vector2 (vec_x u) (vec_y u)"

definition Vector2_dist :: "Vector2 \<Rightarrow> Vector2 \<Rightarrow> real" where
  "Vector2_dist u v = sqrt ((vec_x u - vec_x v) ^ 2 + (vec_y u - vec_y v) ^ 2)"

subsection \<open>Entities and the game state\<close>

datatype atype = Purple | Green

datatype team = Red | Blue

record Particle =
  p_pos :: Vector2
  p_vel :: Vector2
  p_color :: string
  life :: int
  maxLife :: int

record Artifact =
  a_pos :: Vector2
  a_vel :: Vector2
  a_type :: atype
  held :: bool
  holder :: "team option"
  scored :: bool

record Controls =
  k_up :: string
  k_down :: string
  k_left :: string
  k_right :: string
  k_action :: string

record Robot =
  r_id :: team
  r_pos :: Vector2
  r_vel :: Vector2
  angle :: real
  r_color :: string
  controls :: Controls
  inventory :: "nat list"
  cooldown :: int
  speed :: real

text \<open>
  \<open>targetPattern\<close> holds what \<open>types[k]\<close> returned: \<open>None\<close> is JavaScript's
  \<open>undefined\<close>, the value of an index outside the two-element array.
\<close>

record gameState =
  running :: bool
  timeLeft :: int
  lastTime :: int
  robots :: "Robot list"
  artifacts :: "Artifact list"
  particles :: "Particle list"
  targetPattern :: "atype option list"
  redScore :: int
  blueScore :: int
  redHistory :: "atype list"
  blueHistory :: "atype list"
  message_text :: string
  message_hidden :: bool
  rng :: "nat \<Rightarrow> real"
  rng_pos :: nat

datatype js_error = ReferenceError | TypeError

datatype completion = Normal gameState | Threw js_error gameState

fun state_of :: "completion \<Rightarrow> gameState" where
  "state_of (Normal s) = s"
| "state_of (Threw e s) = s"

text \<open>\<open>xs[i]\<close> of a JavaScript array: \<open>undefined\<close> outside the array.\<close>

definition js_index :: "'a list \<Rightarrow> nat \<Rightarrow> 'a option" where
  "js_index xs i = (if i < length xs then Some (xs ! i) else None)"

definition Math_random :: "gameState \<Rightarrow> real \<times> gameState" where
  "Math_random s = (rng s (rng_pos s), s\<lparr>rng_pos := Suc (rng_pos s)\<rparr>)"

text \<open>What the platform promises of \<open>Math.random()\<close>: every value is in \<open>[0, 1)\<close>.\<close>

definition rng_ok :: "gameState \<Rightarrow> bool" where
  "rng_ok s = (\<forall>n. 0 \<le> rng s n \<and> rng s n < 1)"

subsection \<open>Particles\<close>

definition new_Particle :: "real \<Rightarrow> real \<Rightarrow> string \<Rightarrow> real \<Rightarrow> int \<Rightarrow> gameState \<Rightarrow> Particle \<times> gameState" where
  "new_Particle px py color spd lf s =
     (let (r1, s1) = Math_random s;
          (r2, s2) = Math_random s1
      in (\<lparr>p_pos = Vector2 px py,
           p_vel = Vector2_mult (Vector2_normalize (Vector2 (r1 - 0.5) (r2 - 0.5))) spd,
           p_color = color, life = lf, maxLife = lf\<rparr>, s2))"

definition Particle_update :: "Particle \<Rightarrow> Particle" where
  "Particle_update p =
     (let p1 = p\<lparr>p_pos := Vector2_add (p_pos p) (p_vel p)\<rparr>;
          p2 = p1\<lparr>life := life p1 - 1\<rparr>
      in p2\<lparr>p_vel := Vector2_mult (p_vel p2) 0.95\<rparr>)"

fun spawnParticles :: "real \<Rightarrow> real \<Rightarrow> string \<Rightarrow> nat \<Rightarrow> gameState \<Rightarrow> gameState" where
  "spawnParticles px py color 0 s = s"
| "spawnParticles px py color (Suc n) s =
     (let (p, s1) = new_Particle px py color 4 30 s
      in spawnParticles px py color n (s1\<lparr>particles := particles s1 @ [p]\<rparr>))"

subsection \<open>The target pattern\<close>

text \<open>\<open>types[k]\<close> for \<open>types = ['purple', 'green']\<close>.\<close>

definition types_at :: "int \<Rightarrow> atype option" where
  "types_at k = (if k = 0 then Some Purple else if k = 1 then Some Green else None)"

definition generatePattern :: "gameState \<Rightarrow> gameState" where
  "generatePattern s =
     (let (r1, s1) = Math_random s;
          (r2, s2) = Math_random s1;
          (r3, s3) = Math_random s2
      in s3\<lparr>targetPattern :=
            [types_at \<lfloor>r1 * 2\<rfloor>, types_at \<lfloor>r2 * 2\<rfloor>, types_at \<lfloor>r3 * 2\<rfloor>]\<rparr>)"

subsection \<open>Scoring and the pattern bonus\<close>

definition team_upper :: "team \<Rightarrow> string" where
  "team_upper t = (case t of Red \<Rightarrow> ''RED'' | Blue \<Rightarrow> ''BLUE'')"

definition history_of :: "team \<Rightarrow> gameState \<Rightarrow> atype list" where
  "history_of t s = (case t of Red \<Rightarrow> redHistory s | Blue \<Rightarrow> blueHistory s)"

text \<open>
  The loop \<open>for (i = 0; i < 3; i++) if (history[i] !== target[i]) match = false\<close>.
  An element of the target that is \<open>undefined\<close>, or missing, differs from every type.
\<close>

definition pattern_match :: "atype list \<Rightarrow> atype option list \<Rightarrow> bool" where
  "pattern_match history target =
     foldl (\<lambda>m i. if js_index history i \<noteq> Option.bind (js_index target i) id then False else m)
       True [0, 1, 2]"

definition checkPattern :: "team \<Rightarrow> gameState \<Rightarrow> gameState" where
  "checkPattern t s =
     (let history = history_of t s; target = targetPattern s
      in if length history < 3 then s
         else if pattern_match history target then
           (let bonus = 20;
                s1 = (case t of Red \<Rightarrow> s\<lparr>redScore := redScore s + bonus\<rparr>
                               | Blue \<Rightarrow> s\<lparr>blueScore := blueScore s + bonus\<rparr>);
                s2 = s1\<lparr>message_text := team_upper t @ '' MATCHED PATTERN (+30)!'',
                        message_hidden := False\<rparr>;
                s3 = generatePattern s2
            in s3\<lparr>redHistory := [], blueHistory := []\<rparr>)
         else s)"

text \<open>
  \<open>history.push(type); if (history.length > 3) history.shift()\<close>.
\<close>

definition push_history :: "atype list \<Rightarrow> atype \<Rightarrow> atype list" where
  "push_history h ty = (let h1 = h @ [ty] in if length h1 > 3 then tl h1 else h1)"

definition scoreArtifact :: "team \<Rightarrow> Artifact \<Rightarrow> gameState \<Rightarrow> Artifact \<times> gameState" where
  "scoreArtifact t a s =
     (let a1 = a\<lparr>scored := True\<rparr>;
          s1 = spawnParticles (vec_x (a_pos a1)) (vec_y (a_pos a1))
                 (if t = Red then COLORS_red else COLORS_blue) 20 s;
          points = (if a_type a1 = Purple then 5 else 10)
      in if t = Red then
           (let s2 = s1\<lparr>redScore := redScore s1 + points\<rparr>;
                s3 = s2\<lparr>redHistory := push_history (redHistory s2) (a_type a1)\<rparr>
            in (a1, checkPattern Red s3))
         else
           (let s2 = s1\<lparr>blueScore := blueScore s1 + points\<rparr>;
                s3 = s2\<lparr>blueHistory := push_history (blueHistory s2) (a_type a1)\<rparr>
            in (a1, checkPattern Blue s3)))"

subsection \<open>Artifacts\<close>

definition new_Artifact :: "real \<Rightarrow> real \<Rightarrow> atype \<Rightarrow> Artifact" where
  "new_Artifact px py ty =
     \<lparr>a_pos = Vector2 px py, a_vel = Vector2 0 0, a_type = ty,
      held = False, holder = None, scored = False\<rparr>"

definition Artifact_update :: "Artifact \<Rightarrow> Artifact" where
  "Artifact_update a =
     (if scored a then a
      else if held a then a
      else
        (let a1 = a\<lparr>a_pos := Vector2_add (a_pos a) (a_vel a)\<rparr>;
             a2 = a1\<lparr>a_vel := Vector2_mult (a_vel a1) 0.98\<rparr>;
             a3 = (if vec_x (a_pos a2) < ARTIFACT_RADIUS \<or> vec_x (a_pos a2) > FIELD_WIDTH - ARTIFACT_RADIUS
                   then a2\<lparr>a_vel := Vector2 (vec_x (a_vel a2) * (- 1)) (vec_y (a_vel a2))\<rparr> else a2)
         in if vec_y (a_pos a3) < ARTIFACT_RADIUS \<or> vec_y (a_pos a3) > FIELD_HEIGHT - ARTIFACT_RADIUS
            then a3\<lparr>a_vel := Vector2 (vec_x (a_vel a3)) (vec_y (a_vel a3) * (- 1))\<rparr> else a3))"

text \<open>
  The loop \<open>for (i = 0; i < n; i++) gameState.artifacts.push(new Artifact(Math.random() *
  (FIELD_WIDTH - 200) + 100, Math.random() * (FIELD_HEIGHT - 200) + 100, type))\<close>, which
  the source writes out for each colour in \<open>spawnArtifacts\<close> and in \<open>update\<close>.
\<close>

fun push_artifacts :: "atype \<Rightarrow> nat \<Rightarrow> gameState \<Rightarrow> gameState" where
  "push_artifacts ty 0 s = s"
| "push_artifacts ty (Suc n) s =
     (let (r1, s1) = Math_random s;
          (r2, s2) = Math_random s1;
          a = new_Artifact (r1 * (FIELD_WIDTH - 200) + 100) (r2 * (FIELD_HEIGHT - 200) + 100) ty
      in push_artifacts ty n (s2\<lparr>artifacts := artifacts s2 @ [a]\<rparr>))"

definition spawnArtifacts :: "gameState \<Rightarrow> gameState" where
  "spawnArtifacts s = push_artifacts Green 12 (push_artifacts Purple 24 (s\<lparr>artifacts := []\<rparr>))"

subsection \<open>Robots\<close>

text \<open>\<open>Math.atan2(y, x)\<close> on the reals (the signed zeros of the doubles are left out).\<close>

definition atan2 :: "real \<Rightarrow> real \<Rightarrow> real" where
  "atan2 y x =
     (if x > 0 then arctan (y / x)
      else if x < 0 then (if y \<ge> 0 then arctan (y / x) + pi else arctan (y / x) - pi)
      else if y > 0 then pi / 2
      else if y < 0 then - (pi / 2)
      else 0)"

definition new_Robot :: "team \<Rightarrow> real \<Rightarrow> real \<Rightarrow> string \<Rightarrow> Controls \<Rightarrow> Robot" where
  "new_Robot ident px py color ctl =
     \<lparr>r_id = ident, r_pos = Vector2 px py, r_vel = Vector2 0 0,
      angle = (if ident = Red then 0 else pi), r_color = color, controls = ctl,
      inventory = [], cooldown = 0, speed = 5\<rparr>"

text \<open>
  The scan \<open>for (let a of gameState.artifacts)\<close> of the intake: the position of the
  first artifact that is not held, not scored and nearer than \<open>ROBOT_SIZE + 20\<close>.
\<close>

fun intake_scan :: "Vector2 \<Rightarrow> Artifact list \<Rightarrow> nat option" where
  "intake_scan p [] = None"
| "intake_scan p (a # as) =
     (if \<not> held a \<and> \<not> scored a \<and> Vector2_dist p (a_pos a) < ROBOT_SIZE + 20 then Some 0
      else map_option Suc (intake_scan p as))"

text \<open>
  The shoot branch.  \<open>dir.mult(15)\<close> scales the object \<open>dir\<close> in place and returns that
  same object, so after \<open>a.vel = dir.mult(15)\<close> the name \<open>dir\<close> denotes the scaled
  vector (\<open>dir1\<close> below), and the recoil \<open>dir.copy().mult(0.2)\<close> is computed from it.
  \<open>i\<close> is the entry that \<open>inventory.shift()\<close> removes, \<open>rest\<close> what it leaves.
\<close>

definition Robot_shoot :: "nat \<Rightarrow> nat list \<Rightarrow> Robot \<Rightarrow> gameState \<Rightarrow> Robot \<times> gameState" where
  "Robot_shoot i rest r s =
     (let r1 = r\<lparr>inventory := rest\<rparr>;
          a = artifacts s ! i;
          a1 = a\<lparr>held := False\<rparr>;
          a2 = a1\<lparr>holder := None\<rparr>;
          dir = Vector2 (cos (angle r1)) (sin (angle r1));
          a3 = a2\<lparr>a_pos := Vector2_add (Vector2_copy (r_pos r1))
                               (Vector2_mult (Vector2_copy dir) (ROBOT_SIZE + 10))\<rparr>;
          dir1 = Vector2_mult dir 15;
          a4 = a3\<lparr>a_vel := dir1\<rparr>;
          r2 = r1\<lparr>r_vel := Vector2_sub (r_vel r1) (Vector2_mult (Vector2_copy dir1) 0.2)\<rparr>;
          s1 = s\<lparr>artifacts := (artifacts s)[i := a4]\<rparr>
      in (r2, spawnParticles (vec_x (a_pos a4)) (vec_y (a_pos a4)) ''#fff'' 5 s1))"

definition Robot_action :: "Robot \<Rightarrow> gameState \<Rightarrow> Robot \<times> gameState" where
  "Robot_action r s =
     (case (if length (inventory r) < MAX_INVENTORY then intake_scan (r_pos r) (artifacts s)
            else None) of
        Some i \<Rightarrow>
          (r\<lparr>inventory := inventory r @ [i]\<rparr>,
           s\<lparr>artifacts := (artifacts s)[i := (artifacts s ! i)\<lparr>held := True, holder := Some (r_id r)\<rparr>]\<rparr>)
      | None \<Rightarrow>
          (case inventory r of
             [] \<Rightarrow> (r, s)
           | i # rest \<Rightarrow> Robot_shoot i rest r s))"

definition move_vector :: "(string \<Rightarrow> bool) \<Rightarrow> Controls \<Rightarrow> Vector2" where
  "move_vector input c =
     (let m0 = Vector2 0 0;
          m1 = (if input (k_up c) then Vector2 (vec_x m0) (vec_y m0 - 1) else m0);
          m2 = (if input (k_down c) then Vector2 (vec_x m1) (vec_y m1 + 1) else m1);
          m3 = (if input (k_left c) then Vector2 (vec_x m2 - 1) (vec_y m2) else m2)
      in if input (k_right c) then Vector2 (vec_x m3 + 1) (vec_y m3) else m3)"

definition Robot_move :: "(string \<Rightarrow> bool) \<Rightarrow> Robot \<Rightarrow> Robot" where
  "Robot_move input r =
     (let moveVec = move_vector input (controls r);
          r1 = (if Vector2_mag moveVec > 0 then
                  (let mv = Vector2_mult (Vector2_normalize moveVec) 0.5;
                       r0 = r\<lparr>r_vel := Vector2_add (r_vel r) mv\<rparr>
                   in r0\<lparr>angle := atan2 (vec_y (r_vel r0)) (vec_x (r_vel r0))\<rparr>)
                else r);
          r2 = r1\<lparr>r_vel := Vector2_mult (r_vel r1) 0.92\<rparr>;
          r3 = r2\<lparr>r_pos := Vector2_add (r_pos r2) (r_vel r2)\<rparr>;
          r4 = r3\<lparr>r_pos := Vector2 (max ROBOT_SIZE (min (FIELD_WIDTH - ROBOT_SIZE) (vec_x (r_pos r3))))
                                 (vec_y (r_pos r3))\<rparr>
      in r4\<lparr>r_pos := Vector2 (vec_x (r_pos r4))
                         (max ROBOT_SIZE (min (FIELD_HEIGHT - ROBOT_SIZE) (vec_y (r_pos r4))))\<rparr>)"

text \<open>
  \<open>Robot.update(input)\<close>: the movement and the bounds (\<open>Robot_move\<close>, lines 92 to 111),
  then the action and the cooldown.
\<close>

definition Robot_update :: "(string \<Rightarrow> bool) \<Rightarrow> Robot \<Rightarrow> gameState \<Rightarrow> Robot \<times> gameState" where
  "Robot_update input r s =
     (let r5 = Robot_move input r;
          (r6, s1) = (if input (k_action (controls r5)) \<and> cooldown r5 \<le> 0 then
                        (let (ra, sa) = Robot_action r5 s in (ra\<lparr>cooldown := 15\<rparr>, sa))
                      else (r5, s))
      in (if cooldown r6 > 0 then r6\<lparr>cooldown := cooldown r6 - 1\<rparr> else r6, s1))"

subsection \<open>Start and end of a match\<close>

text \<open>
  \<open>gameState.robots[0].pos = ...\<close> throws a TypeError when the array has no such
  element; the array holds the two robots pushed when the script is loaded.
\<close>

definition startGame :: "int \<Rightarrow> gameState \<Rightarrow> completion" where
  "startGame now s =
     (let s1 = s\<lparr>running := True, timeLeft := 120, lastTime := now, redScore := 0, blueScore := 0\<rparr>;
          s2 = s1\<lparr>message_hidden := True\<rparr>;
          s3 = spawnArtifacts s2;
          s4 = generatePattern s3
      in case robots s4 of
           [] \<Rightarrow> Threw TypeError s4
         | r0 # rs \<Rightarrow>
             (let r0' = r0\<lparr>r_pos := Vector2 100 (FIELD_HEIGHT / 2), inventory := []\<rparr>
              in case rs of
                   [] \<Rightarrow> Threw TypeError (s4\<lparr>robots := [r0']\<rparr>)
                 | r1 # rs' \<Rightarrow>
                     (let r1' = r1\<lparr>r_pos := Vector2 (FIELD_WIDTH - 100) (FIELD_HEIGHT / 2),
                                    inventory := []\<rparr>
                      in Normal (s4\<lparr>robots := r0' # r1' # rs', redHistory := [], blueHistory := []\<rparr>))))"

definition endGame :: "gameState \<Rightarrow> gameState" where
  "endGame s =
     (let s1 = s\<lparr>running := False\<rparr>;
          winner = (if redScore s1 > blueScore s1 then ''RED WINS''
                    else if blueScore s1 > redScore s1 then ''BLUE WINS'' else ''TIE'')
      in s1\<lparr>message_text := winner @ '' - PRESS SPACE TO RESTART'', message_hidden := False\<rparr>)"

subsection \<open>The frame\<close>

definition push_by_robots :: "Robot list \<Rightarrow> Artifact \<Rightarrow> Artifact" where
  "push_by_robots rs a =
     foldl (\<lambda>a r.
        if Vector2_dist (r_pos r) (a_pos a) < ROBOT_SIZE / 2 + ARTIFACT_RADIUS then
          (let pushDir = Vector2_normalize (Vector2_sub (Vector2_copy (a_pos a)) (r_pos r))
           in a\<lparr>a_vel := Vector2_add (a_vel a) (Vector2_mult pushDir 2)\<rparr>)
        else a) a rs"

definition redGoalPos :: Vector2 where
  "redGoalPos = Vector2 50 (FIELD_HEIGHT / 2)"

definition blueGoalPos :: Vector2 where
  "blueGoalPos = Vector2 (FIELD_WIDTH - 50) (FIELD_HEIGHT / 2)"

text \<open>The callback of \<open>gameState.artifacts.forEach\<close>, at the artifact in position \<open>i\<close>.\<close>

definition update_artifact :: "nat \<Rightarrow> gameState \<Rightarrow> gameState" where
  "update_artifact i s =
     (let a = artifacts s ! i
      in if \<not> held a \<and> \<not> scored a then
           (let a1 = Artifact_update a;
                a2 = push_by_robots (robots s) a1
            in if Vector2_dist (a_pos a2) redGoalPos < GOAL_SIZE \<and> \<not> scored a2 then
                 (let (a3, s1) = scoreArtifact Red a2 s
                  in s1\<lparr>artifacts := (artifacts s1)[i := a3]\<rparr>)
               else if Vector2_dist (a_pos a2) blueGoalPos < GOAL_SIZE \<and> \<not> scored a2 then
                 (let (a3, s1) = scoreArtifact Blue a2 s
                  in s1\<lparr>artifacts := (artifacts s1)[i := a3]\<rparr>)
               else s\<lparr>artifacts := (artifacts s)[i := a2]\<rparr>)
         else s)"

definition update_artifacts :: "gameState \<Rightarrow> gameState" where
  "update_artifacts s = foldl (\<lambda>s i. update_artifact i s) s [0..<length (artifacts s)]"

text \<open>The callback of \<open>gameState.robots.forEach\<close>, at the robot in position \<open>k\<close>.\<close>

definition update_robot :: "(string \<Rightarrow> bool) \<Rightarrow> nat \<Rightarrow> gameState \<Rightarrow> gameState" where
  "update_robot input k s =
     (let (r, s1) = Robot_update input (robots s ! k) s
      in s1\<lparr>robots := (robots s1)[k := r]\<rparr>)"

definition update_robots :: "(string \<Rightarrow> bool) \<Rightarrow> gameState \<Rightarrow> gameState" where
  "update_robots input s = foldl (\<lambda>s k. update_robot input k s) s [0..<length (robots s)]"

text \<open>
  \<open>for (i = particles.length - 1; i >= 0; i--) { p.update(); if (p.life <= 0)
  particles.splice(i, 1) }\<close>; the first argument is \<open>i + 1\<close>.
\<close>

fun particles_loop :: "nat \<Rightarrow> Particle list \<Rightarrow> Particle list" where
  "particles_loop 0 ps = ps"
| "particles_loop (Suc i) ps =
     (let p = Particle_update (ps ! i);
          ps1 = ps[i := p]
      in particles_loop i (if life p \<le> 0 then take i ps1 @ drop (Suc i) ps1 else ps1))"

definition update_particles :: "gameState \<Rightarrow> gameState" where
  "update_particles s = s\<lparr>particles := particles_loop (length (particles s)) (particles s)\<rparr>"

text \<open>
  Lines 317 to 361 of \<open>update\<close>: the robots, the artifacts, the particles.
\<close>

definition frame_rest :: "(string \<Rightarrow> bool) \<Rightarrow> gameState \<Rightarrow> gameState" where
  "frame_rest input s = update_particles (update_artifacts (update_robots input s))"

text \<open>
  The names bound where \<open>update\<close> is written: every top-level declaration of the script
  (\<open>const\<close>, \<open>let\<close>, \<open>class\<close>, \<open>function\<close>) and the names of the host that the script
  uses.  \<open>update\<close> has no parameter, and none of its locals is named \<open>gamestate\<close>.
  A name is compared character by character, capitals included; evaluating an identifier
  that is not bound throws a ReferenceError.
\<close>

definition script_globals :: "string list" where
  "script_globals =
     [''canvas'', ''ctx'', ''FIELD_WIDTH'', ''FIELD_HEIGHT'', ''ROBOT_SIZE'', ''ARTIFACT_RADIUS'',
      ''GOAL_SIZE'', ''MAX_INVENTORY'', ''COLORS'', ''gameState'', ''Vector2'', ''Particle'',
      ''Robot'', ''Artifact'', ''input'', ''spawnArtifacts'', ''generatePattern'',
      ''updatePatternUI'', ''updateInventoryUI'', ''spawnParticles'', ''update'',
      ''scoreArtifact'', ''checkPattern'', ''draw'', ''startGame'', ''endGame'', ''resize'']"

definition host_globals :: "string list" where
  "host_globals =
     [''document'', ''window'', ''Math'', ''Date'', ''requestAnimationFrame'', ''setTimeout'']"

definition resolves :: "string \<Rightarrow> bool" where
  "resolves x = (x \<in> set (script_globals @ host_globals))"

text \<open>
  \<open>update()\<close>, as far as the source text determines it.

  The text never closes the body of \<open>update\<close>: the brace of line 315 closes the block
  opened by \<open>if (gamestate.timeleft == 60000){\<close>, the brace of line 362 closes the block
  of the clock test \<open>if (Date.now() - gameState.lastTime >= 1000) {\<close>, and the brace
  opened by \<open>function update() {\<close> at line 293 has no partner.  The script as it stands
  is therefore a SyntaxError: it defines no function and runs no frame.

  Lines 293 to 302 read the same wherever the missing brace is put after them: a match
  that is not running starts on Space; in a running match the clock test, the decrement
  of \<open>timeLeft\<close>, and then the evaluation of the identifier \<open>gamestate\<close>.  What follows
  depends on where the brace goes, and is taken as two parameters:
  \<^item> \<open>rest\<close>, what a frame does when the clock test fails: all of \<open>frame_rest\<close> when
    the brace closes the wave block after line 308, as the indentation has it; nothing
    when it follows line 362; the statements after it when it stands in between;
  \<^item> \<open>after\<close>, what a tick does once \<open>gamestate\<close> has been evaluated (the wave, the
    assignment to \<open>lastTime\<close>, the call of \<open>endGame\<close>, the rest of the frame).
  \<open>now\<close> is the value of \<open>Date.now()\<close>.
\<close>

definition update ::
  "(gameState \<Rightarrow> gameState) \<Rightarrow> (gameState \<Rightarrow> completion) \<Rightarrow> int \<Rightarrow> (string \<Rightarrow> bool) \<Rightarrow> gameState
     \<Rightarrow> completion" where
  "update rest after now input s =
     (if \<not> running s then (if input ''Space'' then startGame now s else Normal s)
      else if now - lastTime s \<ge> 1000 then
        (let s1 = s\<lparr>timeLeft := timeLeft s - 1\<rparr>
         in if resolves ''gamestate'' then after s1 else Threw ReferenceError s1)
      else Normal (rest s))"

subsection \<open>States\<close>

text \<open>The state after the script is loaded, for a given random stream and banner.\<close>

definition red_controls :: Controls where
  "red_controls = \<lparr>k_up = ''KeyW'', k_down = ''KeyS'', k_left = ''KeyA'', k_right = ''KeyD'',
     k_action = ''KeyF''\<rparr>"

definition blue_controls :: Controls where
  "blue_controls = \<lparr>k_up = ''ArrowUp'', k_down = ''ArrowDown'', k_left = ''ArrowLeft'',
     k_right = ''ArrowRight'', k_action = ''KeyM''\<rparr>"

definition initial_robots :: "Robot list" where
  "initial_robots =
     [new_Robot Red 100 (FIELD_HEIGHT / 2) COLORS_red red_controls,
      new_Robot Blue (FIELD_WIDTH - 100) (FIELD_HEIGHT / 2) COLORS_blue blue_controls]"

definition initial_gameState :: "(nat \<Rightarrow> real) \<Rightarrow> string \<Rightarrow> bool \<Rightarrow> gameState" where
  "initial_gameState rnd txt hid =
     \<lparr>running = False, timeLeft = 120, lastTime = 0, robots = initial_robots, artifacts = [],
      particles = [], targetPattern = [], redScore = 0, blueScore = 0, redHistory = [],
      blueHistory = [], message_text = txt, message_hidden = hid, rng = rnd, rng_pos = 0\<rparr>"

subsection \<open>Steps of a match\<close>

text \<open>
  The operations a frame of a running match is made of, each taken on its own: the
  callbacks of the two \<open>forEach\<close> loops at any position, the particle loop, a wave of
  artifacts, the end of the match, and the decrement of \<open>timeLeft\<close>.  A state is
  reachable when it comes from the state of the loaded script by these operations and by
  \<open>startGame\<close>, in any number and order; wherever the missing brace of \<open>update\<close> is
  put, the runs of the program are among them.
\<close>

inductive frame_step :: "gameState \<Rightarrow> gameState \<Rightarrow> bool" where
  step_robot: "k < length (robots s) \<Longrightarrow> frame_step s (update_robot input k s)"
| step_artifact: "i < length (artifacts s) \<Longrightarrow> frame_step s (update_artifact i s)"
| step_particles: "frame_step s (update_particles s)"
| step_wave: "frame_step s (push_artifacts ty n s)"
| step_end: "frame_step s (endGame s)"
| step_tick: "frame_step s (s\<lparr>timeLeft := timeLeft s - 1\<rparr>)"

inductive reachable :: "gameState \<Rightarrow> bool" where
  reach_init: "reachable (initial_gameState rnd txt hid)"
| reach_start: "reachable s \<Longrightarrow> reachable (state_of (startGame now s))"
| reach_step: "reachable s \<Longrightarrow> frame_step s s' \<Longrightarrow> reachable s'"

text \<open>Both histories hold at most 3 entries.\<close>

definition histories_ok :: "gameState \<Rightarrow> bool" where
  "histories_ok s = (length (redHistory s) \<le> 3 \<and> length (blueHistory s) \<le> 3)"

subsection \<open>Accessors and sample inputs\<close>

text \<open>The score of a team, and the value of \<open>points\<close> in \<open>scoreArtifact\<close>.\<close>

definition score_of :: "team \<Rightarrow> gameState \<Rightarrow> int" where
  "score_of t s = (case t of Red \<Rightarrow> redScore s | Blue \<Rightarrow> blueScore s)"

definition points_of :: "atype \<Rightarrow> int" where
  "points_of ty = (if ty = Purple then 5 else 10)"

text \<open>A running match with the target purple, green, purple, and a purple artifact.\<close>

definition demo_state :: gameState where
  "demo_state = (initial_gameState (\<lambda>n. 0) [] True)
     \<lparr>running := True, targetPattern := [Some Purple, Some Green, Some Purple]\<rparr>"

definition demo_purple :: Artifact where
  "demo_purple = new_Artifact 60 700 Purple"

text \<open>
  A red robot at its starting place, heading along the x axis, that holds the artifact in
  position 0 of the collection; and that artifact, far from the robot.
\<close>

definition demo_robot :: Robot where
  "demo_robot = (new_Robot Red 100 700 COLORS_red red_controls)\<lparr>inventory := [0]\<rparr>"

definition demo_held :: Artifact where
  "demo_held = (new_Artifact 500 500 Green)\<lparr>held := True, holder := Some Red\<rparr>"

text \<open>
  The same robot with an empty inventory; a scored artifact; and a state before a
  restart, in which the red robot moves, is turned, holds an artifact and has a cooldown
  pending.
\<close>

definition demo_idle_robot :: Robot where
  "demo_idle_robot = new_Robot Red 100 700 COLORS_red red_controls"

definition demo_scored :: Artifact where
  "demo_scored = (new_Artifact 60 700 Green)\<lparr>scored := True\<rparr>"

definition demo_lobby :: gameState where
  "demo_lobby = (initial_gameState (\<lambda>n. 0) [] False)
     \<lparr>robots := [demo_robot\<lparr>r_vel := Vector2 3 4, angle := 1, cooldown := 7\<rparr>,
                 new_Robot Blue 1900 700 COLORS_blue blue_controls],
      redScore := 35, blueScore := 10, timeLeft := 0, redHistory := [Green]\<rparr>"

text \<open>
  A match in which red has just completed the target, with a random stream that draws
  green, purple, purple next; and the match that \<open>startGame\<close> starts at time 0 from the
  state of the loaded script.
\<close>

definition demo_match :: gameState where
  "demo_match = demo_state\<lparr>redHistory := [Purple, Green, Purple], blueHistory := [Green],
     blueScore := 15, rng := (\<lambda>n. if n = 7 then 3 / 4 else 1 / 4), rng_pos := 7\<rparr>"

definition demo_started :: gameState where
  "demo_started = state_of (startGame 0 (initial_gameState (\<lambda>n. 0) [] False))"

section \<open>Auxiliary facts\<close>

subsection \<open>Pattern, particles, history\<close>

lemma pattern_match_iff:
  assumes "3 \<le> length h"
  shows "pattern_match h tg \<longleftrightarrow> map Some (take 3 h) = take 3 tg"
proof -
  from assms obtain a b c rest where h: "h = a # b # c # rest"
    by (cases h; cases "tl h"; cases "tl (tl h)") auto
  show ?thesis
  proof (cases tg)
    case Nil
    then show ?thesis by (simp add: h pattern_match_def js_index_def)
  next
    case (Cons x tg1)
    note c1 = this
    show ?thesis
    proof (cases tg1)
      case Nil
      then show ?thesis by (simp add: h c1 pattern_match_def js_index_def)
    next
      case (Cons y tg2)
      note c2 = this
      show ?thesis
      proof (cases tg2)
        case Nil
        then show ?thesis by (simp add: h c1 c2 pattern_match_def js_index_def)
      next
        case (Cons z tg3)
        then show ?thesis
          by (cases x; cases y; cases z) (auto simp add: h c1 c2 pattern_match_def js_index_def numeral_3_eq_3 numeral_2_eq_2)
      qed
    qed
  qed
qed

lemma types_at_range:
  assumes "0 \<le> r" "r < 1"
  shows "types_at \<lfloor>r * 2\<rfloor> \<in> {Some Purple, Some Green}"
proof -
  have "0 \<le> \<lfloor>r * 2\<rfloor>" using assms by simp
  moreover have "\<lfloor>r * 2\<rfloor> < 2" using assms by (simp add: floor_less_iff)
  ultimately have "\<lfloor>r * 2\<rfloor> = 0 \<or> \<lfloor>r * 2\<rfloor> = 1" by linarith
  then show ?thesis by (auto simp add: types_at_def)
qed

lemma generatePattern_frame:
  "redScore (generatePattern s) = redScore s"
  "blueScore (generatePattern s) = blueScore s"
  "redHistory (generatePattern s) = redHistory s"
  "blueHistory (generatePattern s) = blueHistory s"
  "artifacts (generatePattern s) = artifacts s"
  "robots (generatePattern s) = robots s"
  "rng (generatePattern s) = rng s"
  "length (targetPattern (generatePattern s)) = 3"
  by (simp_all add: generatePattern_def Math_random_def)

lemma generatePattern_draws:
  "targetPattern (generatePattern s) =
     [types_at \<lfloor>rng s (rng_pos s) * 2\<rfloor>, types_at \<lfloor>rng s (rng_pos s + 1) * 2\<rfloor>,
      types_at \<lfloor>rng s (rng_pos s + 2) * 2\<rfloor>]"
  "rng_pos (generatePattern s) = rng_pos s + 3"
  by (simp_all add: generatePattern_def Math_random_def)

lemma generatePattern_types:
  assumes "rng_ok s"
  shows "set (targetPattern (generatePattern s)) \<subseteq> {Some Purple, Some Green}"
  using assms types_at_range[of "rng s (rng_pos s)"] types_at_range[of "rng s (Suc (rng_pos s))"]
    types_at_range[of "rng s (Suc (Suc (rng_pos s)))"]
  by (simp add: generatePattern_def Math_random_def rng_ok_def)

lemma new_Particle_frame:
  "snd (new_Particle px py c spd lf s) = s\<lparr>rng_pos := rng_pos s + 2\<rparr>"
  by (simp add: new_Particle_def Math_random_def)

lemma spawnParticles_shape:
  "\<exists>ps. length ps = n \<and>
     spawnParticles px py c n s = s\<lparr>particles := particles s @ ps, rng_pos := rng_pos s + 2 * n\<rparr>"
proof (induction n arbitrary: s)
  case 0
  then show ?case by simp
next
  case (Suc n)
  obtain p where p: "new_Particle px py c 4 30 s = (p, s\<lparr>rng_pos := rng_pos s + 2\<rparr>)"
    using new_Particle_frame[of px py c 4 30 s] by (cases "new_Particle px py c 4 30 s") simp
  let ?s1 = "s\<lparr>rng_pos := rng_pos s + 2\<rparr>\<lparr>particles := particles s @ [p]\<rparr>"
  from Suc.IH[of ?s1] obtain ps where ps: "length ps = n"
    "spawnParticles px py c n ?s1 = ?s1\<lparr>particles := particles ?s1 @ ps, rng_pos := rng_pos ?s1 + 2 * n\<rparr>"
    by blast
  have "spawnParticles px py c (Suc n) s = s\<lparr>particles := particles s @ (p # ps), rng_pos := rng_pos s + 2 * Suc n\<rparr>"
    using ps(2) by (simp add: p)
  moreover have "length (p # ps) = Suc n" using ps(1) by simp
  ultimately show ?case by blast
qed

lemma spawnParticles_frame:
  "running (spawnParticles px py c n s) = running s"
  "timeLeft (spawnParticles px py c n s) = timeLeft s"
  "lastTime (spawnParticles px py c n s) = lastTime s"
  "robots (spawnParticles px py c n s) = robots s"
  "artifacts (spawnParticles px py c n s) = artifacts s"
  "targetPattern (spawnParticles px py c n s) = targetPattern s"
  "redScore (spawnParticles px py c n s) = redScore s"
  "blueScore (spawnParticles px py c n s) = blueScore s"
  "redHistory (spawnParticles px py c n s) = redHistory s"
  "blueHistory (spawnParticles px py c n s) = blueHistory s"
  "message_text (spawnParticles px py c n s) = message_text s"
  "message_hidden (spawnParticles px py c n s) = message_hidden s"
  "rng (spawnParticles px py c n s) = rng s"
  "rng_pos (spawnParticles px py c n s) = rng_pos s + 2 * n"
  using spawnParticles_shape[of n px py c s] by auto

lemma push_history_last3:
  assumes "length h \<le> 3"
  shows "push_history h ty = drop (length (h @ [ty]) - 3) (h @ [ty])"
    and "length (push_history h ty) \<le> 3"
proof -
  show "push_history h ty = drop (length (h @ [ty]) - 3) (h @ [ty])"
  proof (cases "length h = 3")
    case True
    then show ?thesis by (cases h) (simp_all add: push_history_def)
  next
    case False
    with assms show ?thesis by (simp add: push_history_def)
  qed
  show "length (push_history h ty) \<le> 3" using assms by (auto simp add: push_history_def Let_def)
qed

lemma scoreArtifact_unfold:
  "scoreArtifact t a s =
     (a\<lparr>scored := True\<rparr>,
      checkPattern t
        (case t of
           Red \<Rightarrow> (spawnParticles (vec_x (a_pos a)) (vec_y (a_pos a)) COLORS_red 20 s)
                    \<lparr>redScore := redScore s + points_of (a_type a),
                     redHistory := push_history (redHistory s) (a_type a)\<rparr>
         | Blue \<Rightarrow> (spawnParticles (vec_x (a_pos a)) (vec_y (a_pos a)) COLORS_blue 20 s)
                    \<lparr>blueScore := blueScore s + points_of (a_type a),
                      blueHistory := push_history (blueHistory s) (a_type a)\<rparr>))"
  by (cases t) (simp_all add: scoreArtifact_def Let_def points_of_def spawnParticles_frame)


subsection \<open>The clock\<close>

lemma gamestate_unbound: "resolves ''gameState'' \<and> \<not> resolves ''gamestate''"
  by (simp add: resolves_def script_globals_def host_globals_def)

lemma update_tick:
  "running s \<Longrightarrow> now - lastTime s \<ge> 1000 \<Longrightarrow>
     update rest after now input s = Threw ReferenceError (s\<lparr>timeLeft := timeLeft s - 1\<rparr>)"
  by (simp add: update_def gamestate_unbound)

lemma endGame_outcome:
  "\<not> running (endGame s) \<and> \<not> message_hidden (endGame s) \<and>
   message_text (endGame s) =
     (if redScore s > blueScore s then ''RED WINS''
      else if blueScore s > redScore s then ''BLUE WINS'' else ''TIE'') @ '' - PRESS SPACE TO RESTART''"
  by (simp add: endGame_def)

subsection \<open>Robots\<close>

lemma mag_heading: "Vector2_mag (Vector2_mult (Vector2 (cos t) (sin t)) c) = \<bar>c\<bar>"
proof -
  have e: "cos t * cos t + sin t * sin t = 1"
    using sin_cos_squared_add2[of t] by (simp add: power2_eq_square)
  have "cos t * c * (cos t * c) + sin t * c * (sin t * c) = c * c * (cos t * cos t + sin t * sin t)"
    by (simp only: distrib_left mult.assoc mult.left_commute mult.commute)
  also have "\<dots> = c * c" by (simp only: e mult_1_right)
  finally have "Vector2_mag (Vector2_mult (Vector2 (cos t) (sin t)) c) = sqrt (c * c)"
    by (simp add: Vector2_mag_def Vector2_mult_def)
  then show ?thesis by simp
qed

lemma Robot_shoot_vel:
  "r_vel (fst (Robot_shoot i rest r s))
     = Vector2_sub (r_vel r) (Vector2_mult (Vector2 (cos (angle r)) (sin (angle r))) 3)"
  by (simp add: Robot_shoot_def Let_def Vector2_mult_def Vector2_copy_def Vector2_sub_def)


lemma Robot_shoot_fields:
  "r_pos (fst (Robot_shoot i rest r s)) = r_pos r"
  "inventory (fst (Robot_shoot i rest r s)) = rest"
  "cooldown (fst (Robot_shoot i rest r s)) = cooldown r"
  "angle (fst (Robot_shoot i rest r s)) = angle r"
  "controls (fst (Robot_shoot i rest r s)) = controls r"
  "r_id (fst (Robot_shoot i rest r s)) = r_id r"
  by (simp_all add: Robot_shoot_def Let_def)

lemma Robot_action_pos: "r_pos (fst (Robot_action r s)) = r_pos r"
  by (simp add: Robot_action_def Robot_shoot_fields split: option.split list.split)

lemma Robot_update_pos: "r_pos (fst (Robot_update input r s)) = r_pos (Robot_move input r)"
  by (simp add: Robot_update_def Let_def split_beta Robot_action_pos)

lemma Robot_move_clamp:
  "r_pos (Robot_move input r) =
     Vector2 (max ROBOT_SIZE (min (FIELD_WIDTH - ROBOT_SIZE)
                (vec_x (r_pos r) + vec_x (r_vel (Robot_move input r)))))
             (max ROBOT_SIZE (min (FIELD_HEIGHT - ROBOT_SIZE)
                (vec_y (r_pos r) + vec_y (r_vel (Robot_move input r)))))"
  by (simp add: Robot_move_def Let_def Vector2_add_def)

subsection \<open>The artifact callback\<close>

lemma checkPattern_frame:
  "robots (checkPattern t s) = robots s"
  "artifacts (checkPattern t s) = artifacts s"
  by (cases t; simp add: checkPattern_def Let_def generatePattern_frame)+

lemma scoreArtifact_frame:
  "fst (scoreArtifact t a s) = a\<lparr>scored := True\<rparr>"
  "robots (snd (scoreArtifact t a s)) = robots s"
  "artifacts (snd (scoreArtifact t a s)) = artifacts s"
  by (cases t; simp add: scoreArtifact_unfold checkPattern_frame spawnParticles_frame)+

lemma Artifact_update_flags:
  "held (Artifact_update a) = held a"
  "scored (Artifact_update a) = scored a"
  "a_type (Artifact_update a) = a_type a"
  "holder (Artifact_update a) = holder a"
  by (simp_all add: Artifact_update_def Let_def)

lemma Artifact_update_scored: "scored a \<Longrightarrow> Artifact_update a = a"
  by (simp add: Artifact_update_def)

lemma push_by_robots_flags:
  "held (push_by_robots rs a) = held a \<and> scored (push_by_robots rs a) = scored a \<and>
   a_type (push_by_robots rs a) = a_type a \<and> holder (push_by_robots rs a) = holder a \<and>
   a_pos (push_by_robots rs a) = a_pos a"
  unfolding push_by_robots_def
  by (induction rs arbitrary: a) (simp_all add: Let_def)

lemma update_artifact_robots: "robots (update_artifact i s) = robots s"
  by (simp add: update_artifact_def Let_def split_beta scoreArtifact_frame)

lemma update_artifact_scored: "scored (artifacts s ! i) \<Longrightarrow> update_artifact i s = s"
  by (simp add: update_artifact_def)

lemma update_artifact_held: "held (artifacts s ! i) \<Longrightarrow> update_artifact i s = s"
  by (simp add: update_artifact_def)

lemma update_artifact_shape:
  "\<exists>a'. artifacts (update_artifact i s) = (artifacts s)[i := a'] \<and> \<not> held a'"
  if "\<not> held (artifacts s ! i)" "\<not> scored (artifacts s ! i)"
  using that
  by (auto simp add: update_artifact_def Let_def split_beta scoreArtifact_frame
      push_by_robots_flags Artifact_update_flags)

subsection \<open>Intake and shoot\<close>

lemma intake_scan_Some:
  "intake_scan p as = Some i \<Longrightarrow>
     i < length as \<and> \<not> held (as ! i) \<and> \<not> scored (as ! i) \<and>
     Vector2_dist p (a_pos (as ! i)) < ROBOT_SIZE + 20"
proof (induction as arbitrary: i)
  case Nil
  then show ?case by simp
next
  case (Cons a as)
  show ?case
  proof (cases "\<not> held a \<and> \<not> scored a \<and> Vector2_dist p (a_pos a) < ROBOT_SIZE + 20")
    case True
    with Cons.prems show ?thesis by simp
  next
    case False
    with Cons.prems obtain j where j: "intake_scan p as = Some j" "i = Suc j"
      by auto
    from Cons.IH[OF j(1)] j(2) show ?thesis by simp
  qed
qed

lemma intake_scan_None_iff:
  "intake_scan p as = None \<longleftrightarrow>
     (\<forall>a\<in>set as. held a \<or> scored a \<or> \<not> Vector2_dist p (a_pos a) < ROBOT_SIZE + 20)"
  by (induction as) auto

lemma Robot_shoot_state:
  "robots (snd (Robot_shoot i rest r s)) = robots s"
  "artifacts (snd (Robot_shoot i rest r s))
     = (artifacts s)[i := (artifacts s ! i)\<lparr>held := False, holder := None,
          a_pos := Vector2_add (Vector2_copy (r_pos r))
                     (Vector2_mult (Vector2_copy (Vector2 (cos (angle r)) (sin (angle r)))) (ROBOT_SIZE + 10)),
          a_vel := Vector2_mult (Vector2 (cos (angle r)) (sin (angle r))) 15\<rparr>]"
  by (simp_all add: Robot_shoot_def Let_def spawnParticles_frame)

lemma Robot_action_cases:
  obtains
    (intake) i where "length (inventory r) < MAX_INVENTORY" "intake_scan (r_pos r) (artifacts s) = Some i"
      "Robot_action r s = (r\<lparr>inventory := inventory r @ [i]\<rparr>,
         s\<lparr>artifacts := (artifacts s)[i := (artifacts s ! i)\<lparr>held := True, holder := Some (r_id r)\<rparr>]\<rparr>)"
  | (shoot) i rest where "inventory r = i # rest" "Robot_action r s = Robot_shoot i rest r s"
  | (noop) "inventory r = []" "intake_scan (r_pos r) (artifacts s) = None" "Robot_action r s = (r, s)"
proof (cases "if length (inventory r) < MAX_INVENTORY then intake_scan (r_pos r) (artifacts s) else None")
  case (Some i)
  then have "length (inventory r) < MAX_INVENTORY" "intake_scan (r_pos r) (artifacts s) = Some i"
    by (simp_all split: if_splits)
  moreover have "Robot_action r s = (r\<lparr>inventory := inventory r @ [i]\<rparr>,
         s\<lparr>artifacts := (artifacts s)[i := (artifacts s ! i)\<lparr>held := True, holder := Some (r_id r)\<rparr>]\<rparr>)"
    using Some by (simp add: Robot_action_def)
  ultimately show ?thesis by (rule intake)
next
  case None
  show ?thesis
  proof (cases "inventory r")
    case Nil
    then have n1: "intake_scan (r_pos r) (artifacts s) = None"
      using None by (simp add: MAX_INVENTORY_def)
    have n2: "Robot_action r s = (r, s)" using None Nil by (simp add: Robot_action_def)
    from Nil n1 n2 show ?thesis by (rule noop)
  next
    case (Cons i rest)
    then have "Robot_action r s = Robot_shoot i rest r s" using None by (simp add: Robot_action_def)
    with Cons show ?thesis by (rule shoot)
  qed
qed

lemma Robot_action_robots: "robots (snd (Robot_action r s)) = robots s"
  by (cases r s rule: Robot_action_cases) (simp_all add: Robot_shoot_state)

lemma Robot_action_inventory:
  "length (inventory r) \<le> 3 \<Longrightarrow> length (inventory (fst (Robot_action r s))) \<le> 3"
  by (cases r s rule: Robot_action_cases) (simp_all add: Robot_shoot_fields MAX_INVENTORY_def)

lemma Robot_action_artifacts:
  "\<exists>j a'. artifacts (snd (Robot_action r s)) = (artifacts s)[j := a'] \<and>
      scored a' = scored (artifacts s ! j) \<and> (held a' \<longrightarrow> \<not> scored a' \<or> held (artifacts s ! j))"
proof (cases r s rule: Robot_action_cases)
  case (intake i)
  from intake_scan_Some[OF intake(2)] have "\<not> scored (artifacts s ! i)" by simp
  then show ?thesis using intake(3)
    by (intro exI[of _ i] exI[of _ "(artifacts s ! i)\<lparr>held := True, holder := Some (r_id r)\<rparr>"]) simp
next
  case (shoot i rest)
  show ?thesis unfolding shoot(2) Robot_shoot_state
    by (rule exI[of _ i], rule exI, rule conjI, rule refl) simp
next
  case noop
  have "artifacts s = (artifacts s)[0 := artifacts s ! 0]" by simp
  then show ?thesis using noop(3) by (intro exI[of _ 0] exI[of _ "artifacts s ! 0"]) simp
qed

lemma Robot_move_fields:
  "inventory (Robot_move input r) = inventory r"
  "cooldown (Robot_move input r) = cooldown r"
  "controls (Robot_move input r) = controls r"
  "r_id (Robot_move input r) = r_id r"
  by (simp_all add: Robot_move_def Let_def)

lemma Robot_update_cases:
  obtains
    (act) "input (k_action (controls r))" "cooldown r \<le> 0"
      "Robot_update input r s =
         ((fst (Robot_action (Robot_move input r) s))\<lparr>cooldown := 14\<rparr>,
          snd (Robot_action (Robot_move input r) s))"
  | (idle) "\<not> (input (k_action (controls r)) \<and> cooldown r \<le> 0)"
      "Robot_update input r s =
         (if cooldown r > 0 then (Robot_move input r)\<lparr>cooldown := cooldown r - 1\<rparr>
          else Robot_move input r, s)"
proof (cases "input (k_action (controls r)) \<and> cooldown r \<le> 0")
  case True
  then have "Robot_update input r s =
         ((fst (Robot_action (Robot_move input r) s))\<lparr>cooldown := 14\<rparr>,
          snd (Robot_action (Robot_move input r) s))"
    by (simp add: Robot_update_def Let_def split_beta Robot_move_fields)
  with True show ?thesis by (intro act) simp_all
next
  case False
  then have "Robot_update input r s =
         (if cooldown r > 0 then (Robot_move input r)\<lparr>cooldown := cooldown r - 1\<rparr>
          else Robot_move input r, s)"
    by (auto simp add: Robot_update_def Let_def Robot_move_fields)
  with False show ?thesis by (rule idle)
qed

lemma Robot_update_inventory:
  "length (inventory r) \<le> 3 \<Longrightarrow> length (inventory (fst (Robot_update input r s))) \<le> 3"
  by (cases input r s rule: Robot_update_cases)
     (simp_all add: Robot_action_inventory Robot_move_fields)

lemma Robot_update_robots: "robots (snd (Robot_update input r s)) = robots s"
  by (cases input r s rule: Robot_update_cases) (simp_all add: Robot_action_robots)

lemma Robot_update_artifacts:
  "\<exists>j a'. artifacts (snd (Robot_update input r s)) = (artifacts s)[j := a'] \<and>
      scored a' = scored (artifacts s ! j) \<and> (held a' \<longrightarrow> \<not> scored a' \<or> held (artifacts s ! j))"
proof (cases input r s rule: Robot_update_cases)
  case act
  then show ?thesis using Robot_action_artifacts[of "Robot_move input r" s] by simp
next
  case idle
  have "artifacts s = (artifacts s)[0 := artifacts s ! 0]" by simp
  then show ?thesis using idle(2) by (intro exI[of _ 0] exI[of _ "artifacts s ! 0"]) simp
qed

lemma update_robot_robots:
  "robots (update_robot input k s) = (robots s)[k := fst (Robot_update input (robots s ! k) s)]"
  by (simp add: update_robot_def split_beta Robot_update_robots)

lemma update_robot_artifacts:
  "artifacts (update_robot input k s) = artifacts (snd (Robot_update input (robots s ! k) s))"
  by (simp add: update_robot_def split_beta)

subsection \<open>Spawning\<close>

lemma push_artifacts_shape:
  "push_artifacts ty n s =
     s\<lparr>artifacts := artifacts s @
          map (\<lambda>j. new_Artifact (rng s (rng_pos s + 2 * j) * (FIELD_WIDTH - 200) + 100)
                                (rng s (rng_pos s + 2 * j + 1) * (FIELD_HEIGHT - 200) + 100) ty) [0..<n],
       rng_pos := rng_pos s + 2 * n\<rparr>"
proof (induction n arbitrary: s)
  case 0
  then show ?case by simp
next
  case (Suc n)
  show ?case
    by (simp add: Math_random_def Suc.IH map_upt_Suc del: upt_Suc)
qed

lemma push_artifacts_frame:
  "robots (push_artifacts ty n s) = robots s"
  "rng (push_artifacts ty n s) = rng s"
  "rng_pos (push_artifacts ty n s) = rng_pos s + 2 * n"
  "running (push_artifacts ty n s) = running s"
  "timeLeft (push_artifacts ty n s) = timeLeft s"
  "lastTime (push_artifacts ty n s) = lastTime s"
  "redScore (push_artifacts ty n s) = redScore s"
  "blueScore (push_artifacts ty n s) = blueScore s"
  "redHistory (push_artifacts ty n s) = redHistory s"
  "blueHistory (push_artifacts ty n s) = blueHistory s"
  "message_hidden (push_artifacts ty n s) = message_hidden s"
  by (simp_all add: push_artifacts_shape)

lemma push_artifacts_new:
  "\<exists>as. artifacts (push_artifacts ty n s) = artifacts s @ as \<and> length as = n \<and>
     (\<forall>a\<in>set as. a_type a = ty \<and> \<not> held a \<and> \<not> scored a \<and> holder a = None \<and> a_vel a = Vector2 0 0)"
  by (auto simp add: push_artifacts_shape new_Artifact_def)

lemma spawnArtifacts_frame:
  "robots (spawnArtifacts s) = robots s"
  "rng (spawnArtifacts s) = rng s"
  "rng_pos (spawnArtifacts s) = rng_pos s + 72"
  "running (spawnArtifacts s) = running s"
  "timeLeft (spawnArtifacts s) = timeLeft s"
  "lastTime (spawnArtifacts s) = lastTime s"
  "redScore (spawnArtifacts s) = redScore s"
  "blueScore (spawnArtifacts s) = blueScore s"
  "message_hidden (spawnArtifacts s) = message_hidden s"
  by (simp_all add: spawnArtifacts_def push_artifacts_frame)

lemma spawnArtifacts_new:
  "map a_type (artifacts (spawnArtifacts s)) = replicate 24 Purple @ replicate 12 Green \<and>
   (\<forall>a\<in>set (artifacts (spawnArtifacts s)).
      \<not> held a \<and> \<not> scored a \<and> holder a = None \<and> a_vel a = Vector2 0 0)"
proof -
  let ?s0 = "s\<lparr>artifacts := []\<rparr>"
  obtain ps where ps: "artifacts (push_artifacts Purple 24 ?s0) = artifacts ?s0 @ ps" "length ps = 24"
     "\<forall>a\<in>set ps. a_type a = Purple \<and> \<not> held a \<and> \<not> scored a \<and> holder a = None \<and> a_vel a = Vector2 0 0"
    using push_artifacts_new[of Purple 24 ?s0] by blast
  obtain gs where gs: "artifacts (push_artifacts Green 12 (push_artifacts Purple 24 ?s0))
       = artifacts (push_artifacts Purple 24 ?s0) @ gs" "length gs = 12"
     "\<forall>a\<in>set gs. a_type a = Green \<and> \<not> held a \<and> \<not> scored a \<and> holder a = None \<and> a_vel a = Vector2 0 0"
    using push_artifacts_new[of Green 12 "push_artifacts Purple 24 ?s0"] by blast
  have a: "artifacts (spawnArtifacts s) = ps @ gs"
    using ps(1) gs(1) by (simp add: spawnArtifacts_def)
  have "map a_type ps = replicate 24 Purple"
    using ps(2,3) by (metis (mono_tags, lifting) map_replicate_const map_eq_conv)
  moreover have "map a_type gs = replicate 12 Green"
    using gs(2,3) by (metis (mono_tags, lifting) map_replicate_const map_eq_conv)
  ultimately show ?thesis using ps(3) gs(3) by (auto simp add: a)
qed

subsection \<open>Invariants of the reachable states\<close>

lemma startGame_state:
  "artifacts (state_of (startGame now s))
     = artifacts (spawnArtifacts (s\<lparr>running := True, timeLeft := 120, lastTime := now, redScore := 0,
         blueScore := 0, message_hidden := True\<rparr>))"
  "\<forall>r\<in>set (robots (state_of (startGame now s))). r \<in> set (robots s) \<or> inventory r = []"
proof -
  define s4 where "s4 = generatePattern (spawnArtifacts (s\<lparr>running := True, timeLeft := 120,
     lastTime := now, redScore := 0, blueScore := 0, message_hidden := True\<rparr>))"
  have r4: "robots s4 = robots s"
    by (simp add: s4_def generatePattern_frame spawnArtifacts_frame)
  have a4: "artifacts s4 = artifacts (spawnArtifacts (s\<lparr>running := True, timeLeft := 120,
     lastTime := now, redScore := 0, blueScore := 0, message_hidden := True\<rparr>))"
    by (simp add: s4_def generatePattern_frame)
  have sg: "startGame now s =
      (case robots s4 of
           [] \<Rightarrow> Threw TypeError s4
         | r0 # rs \<Rightarrow>
             (case rs of
                   [] \<Rightarrow> Threw TypeError (s4\<lparr>robots := [r0\<lparr>r_pos := Vector2 100 (FIELD_HEIGHT / 2), inventory := []\<rparr>]\<rparr>)
                 | r1 # rs' \<Rightarrow>
                      Normal (s4\<lparr>robots := r0\<lparr>r_pos := Vector2 100 (FIELD_HEIGHT / 2), inventory := []\<rparr>
                         # r1\<lparr>r_pos := Vector2 (FIELD_WIDTH - 100) (FIELD_HEIGHT / 2), inventory := []\<rparr> # rs',
                         redHistory := [], blueHistory := []\<rparr>)))"
    unfolding s4_def by (simp add: startGame_def Let_def split: list.split)
  show "artifacts (state_of (startGame now s))
     = artifacts (spawnArtifacts (s\<lparr>running := True, timeLeft := 120, lastTime := now, redScore := 0,
         blueScore := 0, message_hidden := True\<rparr>))"
    unfolding sg using a4 by (simp split: list.split)
  show "\<forall>r\<in>set (robots (state_of (startGame now s))). r \<in> set (robots s) \<or> inventory r = []"
    unfolding sg using r4 by (auto split: list.split)
qed

lemma startGame_count: "length (artifacts (state_of (startGame now s))) = 36"
  using arg_cong[OF conjunct1[OF spawnArtifacts_new], of length]
  by (simp add: startGame_state(1))

lemma inventory_bound_step:
  assumes "frame_step s s'" and "\<forall>r\<in>set (robots s). length (inventory r) \<le> 3"
  shows "\<forall>r\<in>set (robots s'). length (inventory r) \<le> 3"
  using assms
proof (cases rule: frame_step.cases)
  case (step_robot k input)
  have "length (inventory (fst (Robot_update input (robots s ! k) s))) \<le> 3"
    using step_robot(2) assms(2) by (intro Robot_update_inventory) simp
  then show ?thesis
    using assms(2) set_update_subset_insert[of "robots s" k]
    by (auto simp add: step_robot(1) update_robot_robots)
next
  case (step_artifact i)
  then show ?thesis using assms(2) by (simp add: update_artifact_robots)
next
  case step_particles
  then show ?thesis using assms(2) by (simp add: update_particles_def)
next
  case (step_wave ty n)
  then show ?thesis using assms(2) by (simp add: push_artifacts_frame)
next
  case step_end
  then show ?thesis using assms(2) by (simp add: endGame_def Let_def)
next
  case step_tick
  then show ?thesis using assms(2) by simp
qed

lemma reachable_inventory_bound:
  "reachable s \<Longrightarrow> \<forall>r\<in>set (robots s). length (inventory r) \<le> 3"
proof (induction rule: reachable.induct)
  case (reach_init rnd msg hid)
  show ?case by (simp add: initial_gameState_def initial_robots_def new_Robot_def)
next
  case (reach_start s now)
  then show ?case using startGame_state(2)[of now s] by fastforce
next
  case (reach_step s s')
  then show ?case using inventory_bound_step by blast
qed

lemma list_update_set_cases:
  assumes "a \<in> set (xs[j := b])"
  shows "a \<in> set xs \<or> (a = b \<and> j < length xs)"
proof (cases "j < length xs")
  case True
  then show ?thesis using assms set_update_subset_insert[of xs j b] by auto
next
  case False
  then show ?thesis using assms by (simp add: list_update_beyond)
qed

lemma exclusive_step:
  assumes "frame_step s s'" and "\<forall>a\<in>set (artifacts s). \<not> (held a \<and> scored a)"
  shows "\<forall>a\<in>set (artifacts s'). \<not> (held a \<and> scored a)"
  using assms
proof (cases rule: frame_step.cases)
  case (step_robot k input)
  obtain j a' where j: "artifacts (snd (Robot_update input (robots s ! k) s)) = (artifacts s)[j := a']"
     "scored a' = scored (artifacts s ! j)" "held a' \<longrightarrow> \<not> scored a' \<or> held (artifacts s ! j)"
    using Robot_update_artifacts[of input "robots s ! k" s] by blast
  show ?thesis
  proof
    fix a assume "a \<in> set (artifacts s')"
    then have "a \<in> set ((artifacts s)[j := a'])"
      by (simp add: step_robot(1) update_robot_artifacts j(1))
    then have "a \<in> set (artifacts s) \<or> (a = a' \<and> j < length (artifacts s))"
      by (rule list_update_set_cases)
    then show "\<not> (held a \<and> scored a)"
    proof
      assume "a \<in> set (artifacts s)"
      then show ?thesis using assms(2) by blast
    next
      assume b: "a = a' \<and> j < length (artifacts s)"
      then have "\<not> (held (artifacts s ! j) \<and> scored (artifacts s ! j))"
        using assms(2) nth_mem by blast
      then show ?thesis using b j(2,3) by blast
    qed
  qed
next
  case (step_artifact i)
  show ?thesis
  proof (cases "held (artifacts s ! i) \<or> scored (artifacts s ! i)")
    case True
    then have "s' = s" using step_artifact(1) update_artifact_held update_artifact_scored by auto
    then show ?thesis using assms(2) by simp
  next
    case False
    then obtain a' where a': "artifacts s' = (artifacts s)[i := a']" "\<not> held a'"
      using update_artifact_shape[of s i] step_artifact(1) by auto
    show ?thesis
    proof
      fix a assume "a \<in> set (artifacts s')"
      then have "a \<in> set (artifacts s) \<or> (a = a' \<and> i < length (artifacts s))"
        unfolding a'(1) by (rule list_update_set_cases)
      then show "\<not> (held a \<and> scored a)" using assms(2) a'(2) by blast
    qed
  qed
next
  case step_particles
  then show ?thesis using assms(2) by (simp add: update_particles_def)
next
  case (step_wave ty n)
  then show ?thesis using assms(2) push_artifacts_new[of ty n s] by auto
next
  case step_end
  then show ?thesis using assms(2) by (simp add: endGame_def Let_def)
next
  case step_tick
  then show ?thesis using assms(2) by simp
qed

lemma reachable_exclusive:
  "reachable s \<Longrightarrow> \<forall>a\<in>set (artifacts s). \<not> (held a \<and> scored a)"
proof (induction rule: reachable.induct)
  case (reach_init rnd msg hid)
  show ?case by (simp add: initial_gameState_def)
next
  case (reach_start s now)
  show ?case using spawnArtifacts_new by (simp add: startGame_state(1))
next
  case (reach_step s s')
  then show ?case using exclusive_step by blast
qed

lemma scored_monotone_step:
  assumes "frame_step s s'" and "i < length (artifacts s)" and "scored (artifacts s ! i)"
  shows "i < length (artifacts s') \<and> scored (artifacts s' ! i)"
  using assms(1)
proof (cases rule: frame_step.cases)
  case (step_robot k input)
  obtain j a' where j: "artifacts (snd (Robot_update input (robots s ! k) s)) = (artifacts s)[j := a']"
     "scored a' = scored (artifacts s ! j)"
    using Robot_update_artifacts[of input "robots s ! k" s] by blast
  have "artifacts s' = (artifacts s)[j := a']"
    by (simp add: step_robot(1) update_robot_artifacts j(1))
  then show ?thesis using assms(2,3) j(2) by (cases "i = j") simp_all
next
  case (step_artifact k)
  show ?thesis
  proof (cases "held (artifacts s ! k) \<or> scored (artifacts s ! k)")
    case True
    then have "s' = s" using step_artifact(1) update_artifact_held update_artifact_scored by auto
    then show ?thesis using assms(2,3) by simp
  next
    case False
    then obtain a' where a': "artifacts s' = (artifacts s)[k := a']"
      using update_artifact_shape[of s k] step_artifact(1) by auto
    have "i \<noteq> k" using False assms(3) by auto
    then show ?thesis using assms(2,3) by (simp add: a')
  qed
next
  case step_particles
  then show ?thesis using assms(2,3) by (simp add: update_particles_def)
next
  case (step_wave ty n)
  then show ?thesis using assms(2,3) by (simp add: push_artifacts_shape nth_append)
next
  case step_end
  then show ?thesis using assms(2,3) by (simp add: endGame_def Let_def)
next
  case step_tick
  then show ?thesis using assms(2,3) by simp
qed

lemma scored_monotone_steps:
  assumes "frame_step\<^sup>*\<^sup>* s s'"
  shows "i < length (artifacts s) \<and> scored (artifacts s ! i)
     \<Longrightarrow> i < length (artifacts s') \<and> scored (artifacts s' ! i)"
  using assms
proof (induction rule: rtranclp_induct)
  case base
  then show ?case by simp
next
  case (step y z)
  then have "i < length (artifacts y)" "scored (artifacts y ! i)" by simp_all
  with step(2) show ?case by (rule scored_monotone_step)
qed

lemma checkPattern_histories:
  "(redHistory (checkPattern t s) = redHistory s \<and> blueHistory (checkPattern t s) = blueHistory s) \<or>
   (redHistory (checkPattern t s) = [] \<and> blueHistory (checkPattern t s) = [])"
  by (simp add: checkPattern_def Let_def)

lemma scoreArtifact_histories:
  assumes "histories_ok s"
  shows "histories_ok (snd (scoreArtifact t a s))"
proof -
  define m where "m = (case t of
           Red \<Rightarrow> (spawnParticles (vec_x (a_pos a)) (vec_y (a_pos a)) COLORS_red 20 s)
                    \<lparr>redScore := redScore s + points_of (a_type a),
                     redHistory := push_history (redHistory s) (a_type a)\<rparr>
         | Blue \<Rightarrow> (spawnParticles (vec_x (a_pos a)) (vec_y (a_pos a)) COLORS_blue 20 s)
                    \<lparr>blueScore := blueScore s + points_of (a_type a),
                      blueHistory := push_history (blueHistory s) (a_type a)\<rparr>)"
  have sa: "snd (scoreArtifact t a s) = checkPattern t m"
    unfolding m_def by (simp add: scoreArtifact_unfold)
  have "histories_ok m"
    using assms push_history_last3(2)[of "redHistory s" "a_type a"]
      push_history_last3(2)[of "blueHistory s" "a_type a"]
    by (cases t) (simp_all add: m_def histories_ok_def spawnParticles_frame)
  then show ?thesis
    using checkPattern_histories[of t m] by (auto simp add: sa histories_ok_def)
qed

lemma Robot_update_histories:
  "redHistory (snd (Robot_update input r s)) = redHistory s"
  "blueHistory (snd (Robot_update input r s)) = blueHistory s"
proof -
  have a: "redHistory (snd (Robot_action r' s)) = redHistory s \<and>
           blueHistory (snd (Robot_action r' s)) = blueHistory s" for r'
    by (cases r' s rule: Robot_action_cases)
       (simp_all add: Robot_shoot_def Let_def spawnParticles_frame)
  show "redHistory (snd (Robot_update input r s)) = redHistory s"
    by (cases input r s rule: Robot_update_cases) (simp_all add: a)
  show "blueHistory (snd (Robot_update input r s)) = blueHistory s"
    by (cases input r s rule: Robot_update_cases) (simp_all add: a)
qed

lemma histories_step:
  assumes "frame_step s s'" and "histories_ok s"
  shows "histories_ok s'"
  using assms
proof (cases rule: frame_step.cases)
  case (step_robot k input)
  then show ?thesis using assms(2)
    by (simp add: histories_ok_def update_robot_def split_beta Robot_update_histories)
next
  case (step_artifact i)
  then show ?thesis
    using assms(2) scoreArtifact_histories[OF assms(2)]
    by (auto simp add: update_artifact_def Let_def split_beta histories_ok_def)
next
  case step_particles
  then show ?thesis using assms(2) by (simp add: update_particles_def histories_ok_def)
next
  case (step_wave ty n)
  then show ?thesis using assms(2) by (simp add: push_artifacts_frame histories_ok_def)
next
  case step_end
  then show ?thesis using assms(2) by (simp add: endGame_def Let_def histories_ok_def)
next
  case step_tick
  then show ?thesis using assms(2) by (simp add: histories_ok_def)
qed

lemma startGame_histories:
  "histories_ok s \<Longrightarrow> histories_ok (state_of (startGame now s))"
  by (simp add: startGame_def Let_def histories_ok_def generatePattern_frame spawnArtifacts_def
      push_artifacts_frame split: list.split)

lemma reachable_histories: "reachable s \<Longrightarrow> histories_ok s"
proof (induction rule: reachable.induct)
  case (reach_init rnd msg hid)
  show ?case by (simp add: initial_gameState_def histories_ok_def)
next
  case (reach_start s now)
  then show ?case by (simp add: startGame_histories)
next
  case (reach_step s s')
  then show ?case using histories_step by blast
qed

subsection \<open>Frames as sequences of steps\<close>

lemma startGame_clock:
  "running (state_of (startGame now s)) \<and> timeLeft (state_of (startGame now s)) = 120 \<and>
   lastTime (state_of (startGame now s)) = now"
  by (simp add: startGame_def Let_def generatePattern_frame generatePattern_def Math_random_def
      spawnArtifacts_frame split: list.split)

lemma update_robot_length: "length (robots (update_robot input k s)) = length (robots s)"
  by (simp add: update_robot_robots)

lemma robots_fold_steps:
  "\<forall>k\<in>set ks. k < length (robots s)
     \<Longrightarrow> frame_step\<^sup>*\<^sup>* s (foldl (\<lambda>s k. update_robot input k s) s ks)"
proof (induction ks arbitrary: s)
  case Nil
  show ?case by simp
next
  case (Cons k ks)
  have a: "frame_step s (update_robot input k s)"
    using Cons.prems by (intro step_robot) simp
  have "\<forall>j\<in>set ks. j < length (robots (update_robot input k s))"
    using Cons.prems by (simp add: update_robot_length)
  from Cons.IH[OF this] have "frame_step\<^sup>*\<^sup>* (update_robot input k s)
      (foldl (\<lambda>s k. update_robot input k s) (update_robot input k s) ks)" .
  with a show ?case by (simp add: converse_rtranclp_into_rtranclp)
qed

lemma update_robots_steps: "frame_step\<^sup>*\<^sup>* s (update_robots input s)"
  unfolding update_robots_def by (rule robots_fold_steps) simp

lemma update_artifact_length: "length (artifacts (update_artifact i s)) = length (artifacts s)"
proof (cases "held (artifacts s ! i) \<or> scored (artifacts s ! i)")
  case True
  then have "update_artifact i s = s" using update_artifact_held update_artifact_scored by blast
  then show ?thesis by simp
next
  case False
  then obtain a' where "artifacts (update_artifact i s) = (artifacts s)[i := a']"
    using update_artifact_shape[of s i] by auto
  then show ?thesis by simp
qed

lemma artifacts_fold_steps:
  "\<forall>i\<in>set js. i < length (artifacts s)
     \<Longrightarrow> frame_step\<^sup>*\<^sup>* s (foldl (\<lambda>s i. update_artifact i s) s js)"
proof (induction js arbitrary: s)
  case Nil
  show ?case by simp
next
  case (Cons i js)
  have a: "frame_step s (update_artifact i s)"
    using Cons.prems by (intro step_artifact) simp
  have "\<forall>j\<in>set js. j < length (artifacts (update_artifact i s))"
    using Cons.prems by (simp add: update_artifact_length)
  from Cons.IH[OF this] have "frame_step\<^sup>*\<^sup>* (update_artifact i s)
      (foldl (\<lambda>s i. update_artifact i s) (update_artifact i s) js)" .
  with a show ?case by (simp add: converse_rtranclp_into_rtranclp)
qed

lemma update_artifacts_steps: "frame_step\<^sup>*\<^sup>* s (update_artifacts s)"
  unfolding update_artifacts_def by (rule artifacts_fold_steps) simp

lemma frame_rest_steps: "frame_step\<^sup>*\<^sup>* s (frame_rest input s)"
proof -
  have "frame_step\<^sup>*\<^sup>* (update_artifacts (update_robots input s)) (frame_rest input s)"
    unfolding frame_rest_def by (rule r_into_rtranclp) (rule step_particles)
  with update_robots_steps[of s input] update_artifacts_steps[of "update_robots input s"]
  show ?thesis by (meson rtranclp_trans)
qed

lemma reachable_steps: "frame_step\<^sup>*\<^sup>* s s' \<Longrightarrow> reachable s \<Longrightarrow> reachable s'"
  by (induction rule: rtranclp_induct) (auto intro: reach_step)

text \<open>
  A frame keeps the state reachable, for every remainder that is made of steps; the
  remainders of the two placements named above are.
\<close>

lemma reachable_update:
  assumes "reachable s" and "frame_step\<^sup>*\<^sup>* s (rest s)"
  shows "reachable (state_of (update rest after now input s))"
proof (cases "running s")
  case False
  then show ?thesis using assms(1) by (auto simp add: update_def intro: reach_start)
next
  case True
  show ?thesis
  proof (cases "now - lastTime s \<ge> 1000")
    case True
    have "frame_step s (s\<lparr>timeLeft := timeLeft s - 1\<rparr>)" by (rule step_tick)
    then show ?thesis using \<open>running s\<close> True assms(1) by (simp add: update_tick reach_step)
  next
    case False
    then show ?thesis using \<open>running s\<close> assms reachable_steps by (simp add: update_def)
  qed
qed

section \<open>The claims\<close>

subsection \<open>C1: checkPattern\<close>

text \<open>
  C1.  \<open>checkPattern(team)\<close> leaves the whole state as it is (scores, histories and
  target pattern included) when the team's history has fewer than 3 entries or when one
  of its first 3 entries differs from the entry of the target pattern at the same place.
  When all 3 agree it adds exactly 20 to that team's score and nothing to the other's,
  replaces the target pattern by the 3 elements that the next three values of
  \<open>Math.random()\<close> select (each purple or green, the values being in \<open>[0, 1)\<close>), and
  empties the histories of both teams; beyond that it changes the banner only.
\<close>

theorem checkPattern_effect:
  "(length (history_of t s) < 3 \<or> map Some (take 3 (history_of t s)) \<noteq> take 3 (targetPattern s)
      \<longrightarrow> checkPattern t s = s) \<and>
   (3 \<le> length (history_of t s) \<and> map Some (take 3 (history_of t s)) = take 3 (targetPattern s)
      \<longrightarrow> score_of t (checkPattern t s) = score_of t s + 20
        \<and> redScore (checkPattern t s) + blueScore (checkPattern t s) = redScore s + blueScore s + 20
        \<and> targetPattern (checkPattern t s) =
             [types_at \<lfloor>rng s (rng_pos s) * 2\<rfloor>, types_at \<lfloor>rng s (rng_pos s + 1) * 2\<rfloor>,
              types_at \<lfloor>rng s (rng_pos s + 2) * 2\<rfloor>]
        \<and> rng_pos (checkPattern t s) = rng_pos s + 3
        \<and> rng (checkPattern t s) = rng s
        \<and> length (targetPattern (checkPattern t s)) = 3
        \<and> (rng_ok s \<longrightarrow> set (targetPattern (checkPattern t s)) \<subseteq> {Some Purple, Some Green})
        \<and> redHistory (checkPattern t s) = [] \<and> blueHistory (checkPattern t s) = []
        \<and> checkPattern t s =
             (case t of Red \<Rightarrow> s\<lparr>redScore := redScore s + 20\<rparr>
                      | Blue \<Rightarrow> s\<lparr>blueScore := blueScore s + 20\<rparr>)
             \<lparr>message_text := team_upper t @ '' MATCHED PATTERN (+30)!'', message_hidden := False,
              rng_pos := rng_pos s + 3,
              targetPattern :=
                [types_at \<lfloor>rng s (rng_pos s) * 2\<rfloor>, types_at \<lfloor>rng s (rng_pos s + 1) * 2\<rfloor>,
                 types_at \<lfloor>rng s (rng_pos s + 2) * 2\<rfloor>],
              redHistory := [], blueHistory := []\<rparr>)"
proof (intro conjI impI)
  assume "length (history_of t s) < 3 \<or> map Some (take 3 (history_of t s)) \<noteq> take 3 (targetPattern s)"
  then show "checkPattern t s = s"
    using pattern_match_iff[of "history_of t s" "targetPattern s"]
    by (auto simp add: checkPattern_def Let_def)
next
  assume a: "3 \<le> length (history_of t s) \<and> map Some (take 3 (history_of t s)) = take 3 (targetPattern s)"
  then have m: "pattern_match (history_of t s) (targetPattern s)"
    using pattern_match_iff[of "history_of t s" "targetPattern s"] by simp
  define s2 where "s2 = (case t of Red \<Rightarrow> s\<lparr>redScore := redScore s + 20\<rparr>
                               | Blue \<Rightarrow> s\<lparr>blueScore := blueScore s + 20\<rparr>)
       \<lparr>message_text := team_upper t @ '' MATCHED PATTERN (+30)!'', message_hidden := False\<rparr>"
  have cp: "checkPattern t s = (generatePattern s2)\<lparr>redHistory := [], blueHistory := []\<rparr>"
    using a m by (simp add: checkPattern_def Let_def s2_def)
  have g: "rng s2 = rng s" "rng_pos s2 = rng_pos s"
    by (cases t; simp add: s2_def)+
  have sc: "score_of t s2 = score_of t s + 20" by (cases t) (simp_all add: s2_def score_of_def)
  have tot: "redScore s2 + blueScore s2 = redScore s + blueScore s + 20"
    by (cases t) (simp_all add: s2_def)
  show "score_of t (checkPattern t s) = score_of t s + 20"
    using sc cp by (cases t) (simp_all add: score_of_def generatePattern_frame)
  show "redScore (checkPattern t s) + blueScore (checkPattern t s) = redScore s + blueScore s + 20"
    using tot by (simp add: cp generatePattern_frame)
  show "targetPattern (checkPattern t s) =
             [types_at \<lfloor>rng s (rng_pos s) * 2\<rfloor>, types_at \<lfloor>rng s (rng_pos s + 1) * 2\<rfloor>,
              types_at \<lfloor>rng s (rng_pos s + 2) * 2\<rfloor>]"
    by (simp add: cp generatePattern_draws g)
  show "rng_pos (checkPattern t s) = rng_pos s + 3"
    by (simp add: cp generatePattern_draws g)
  show "rng (checkPattern t s) = rng s"
    by (simp add: cp generatePattern_frame g)
  show "length (targetPattern (checkPattern t s)) = 3"
    by (simp add: cp generatePattern_frame)
  show "set (targetPattern (checkPattern t s)) \<subseteq> {Some Purple, Some Green}" if "rng_ok s"
  proof -
    have "rng_ok s2" using that g by (simp add: rng_ok_def)
    from generatePattern_types[OF this] show ?thesis by (simp add: cp)
  qed
  show "redHistory (checkPattern t s) = []" by (simp add: cp)
  show "blueHistory (checkPattern t s) = []" by (simp add: cp)
  show "checkPattern t s =
             (case t of Red \<Rightarrow> s\<lparr>redScore := redScore s + 20\<rparr>
                      | Blue \<Rightarrow> s\<lparr>blueScore := blueScore s + 20\<rparr>)
             \<lparr>message_text := team_upper t @ '' MATCHED PATTERN (+30)!'', message_hidden := False,
              rng_pos := rng_pos s + 3,
              targetPattern :=
                [types_at \<lfloor>rng s (rng_pos s) * 2\<rfloor>, types_at \<lfloor>rng s (rng_pos s + 1) * 2\<rfloor>,
                 types_at \<lfloor>rng s (rng_pos s + 2) * 2\<rfloor>],
              redHistory := [], blueHistory := []\<rparr>"
    unfolding cp s2_def by (cases t) (simp_all add: generatePattern_def Math_random_def)
qed

theorem checkPattern_effect_witness:
  "rng_ok demo_match \<and> targetPattern demo_match = [Some Purple, Some Green, Some Purple] \<and>
   redScore demo_match = 0 \<and> blueScore demo_match = 15 \<and>
   redScore (checkPattern Red demo_match) = 20 \<and>
   blueScore (checkPattern Red demo_match) = 15 \<and>
   targetPattern (checkPattern Red demo_match) = [Some Green, Some Purple, Some Purple] \<and>
   rng_pos (checkPattern Red demo_match) = 10 \<and>
   redHistory (checkPattern Red demo_match) = [] \<and>
   blueHistory (checkPattern Red demo_match) = [] \<and>
   checkPattern Red (demo_state\<lparr>redHistory := [Purple, Green, Green]\<rparr>) = demo_state\<lparr>redHistory := [Purple, Green, Green]\<rparr> \<and>
   checkPattern Blue (demo_state\<lparr>blueHistory := [Purple, Green]\<rparr>) = demo_state\<lparr>blueHistory := [Purple, Green]\<rparr>"
proof -
  have f: "\<lfloor>(3::real) / 4 * 2\<rfloor> = 1" "\<lfloor>(1::real) / 4 * 2\<rfloor> = 0" by linarith+
  show ?thesis
    using checkPattern_effect[of Red demo_match]
      checkPattern_effect[of Red "demo_state\<lparr>redHistory := [Purple, Green, Green]\<rparr>"]
      checkPattern_effect[of Blue "demo_state\<lparr>blueHistory := [Purple, Green]\<rparr>"]
    by (simp add: demo_match_def demo_state_def initial_gameState_def history_of_def score_of_def
        rng_ok_def types_at_def f)
qed

subsection \<open>C2: scoreArtifact\<close>

text \<open>
  C2, as stated, fails: \<open>scoreArtifact\<close> ends with \<open>checkPattern(team)\<close>.  When the artifact completes the
  target pattern, the team's score grows by the points and the bonus, and the history is
  empty afterwards: a purple artifact scored for red on the history purple, green against
  the target purple, green, purple adds 25, not 5.
\<close>

theorem scoreArtifact_bonus_counterexample:
  "\<not> scored demo_purple \<and> a_type demo_purple = Purple \<and>
   redScore (demo_state\<lparr>redHistory := [Purple, Green]\<rparr>) = 0 \<and>
   redScore (snd (scoreArtifact Red demo_purple (demo_state\<lparr>redHistory := [Purple, Green]\<rparr>))) = 25 \<and>
   redHistory (snd (scoreArtifact Red demo_purple (demo_state\<lparr>redHistory := [Purple, Green]\<rparr>))) = []"
  by (simp add: scoreArtifact_unfold checkPattern_def pattern_match_def js_index_def history_of_def
      push_history_def points_of_def demo_purple_def new_Artifact_def demo_state_def
      initial_gameState_def spawnParticles_frame generatePattern_frame Let_def)

lemma scoreArtifact_then_checkPattern:
  assumes "length (history_of t s) \<le> 3"
  shows "scored (fst (scoreArtifact t a s)) \<and>
     push_history (history_of t s) (a_type a)
       = drop (length (history_of t s @ [a_type a]) - 3) (history_of t s @ [a_type a]) \<and>
     (\<not> (length (push_history (history_of t s) (a_type a)) = 3 \<and>
          map Some (push_history (history_of t s) (a_type a)) = take 3 (targetPattern s))
        \<longrightarrow> score_of t (snd (scoreArtifact t a s)) = score_of t s + points_of (a_type a)
          \<and> history_of t (snd (scoreArtifact t a s)) = push_history (history_of t s) (a_type a)) \<and>
     (length (push_history (history_of t s) (a_type a)) = 3 \<and>
      map Some (push_history (history_of t s) (a_type a)) = take 3 (targetPattern s)
        \<longrightarrow> score_of t (snd (scoreArtifact t a s)) = score_of t s + points_of (a_type a) + 20
          \<and> redHistory (snd (scoreArtifact t a s)) = []
          \<and> blueHistory (snd (scoreArtifact t a s)) = [])"
proof -
  define h where "h = push_history (history_of t s) (a_type a)"
  define m where "m = (case t of
           Red \<Rightarrow> (spawnParticles (vec_x (a_pos a)) (vec_y (a_pos a)) COLORS_red 20 s)
                    \<lparr>redScore := redScore s + points_of (a_type a),
                     redHistory := push_history (redHistory s) (a_type a)\<rparr>
         | Blue \<Rightarrow> (spawnParticles (vec_x (a_pos a)) (vec_y (a_pos a)) COLORS_blue 20 s)
                    \<lparr>blueScore := blueScore s + points_of (a_type a),
                      blueHistory := push_history (blueHistory s) (a_type a)\<rparr>)"
  have sa: "scoreArtifact t a s = (a\<lparr>scored := True\<rparr>, checkPattern t m)"
    unfolding m_def by (rule scoreArtifact_unfold)
  have mh: "history_of t m = h"
    by (cases t) (simp_all add: m_def h_def history_of_def)
  have mt: "targetPattern m = targetPattern s"
    by (cases t) (simp_all add: m_def spawnParticles_frame)
  have ms: "score_of t m = score_of t s + points_of (a_type a)"
    by (cases t) (simp_all add: m_def score_of_def)
  have hl: "length h \<le> 3" unfolding h_def using assms by (rule push_history_last3(2))
  have c1: "scored (fst (scoreArtifact t a s))" by (simp add: sa)
  have c2: "h = drop (length (history_of t s @ [a_type a]) - 3) (history_of t s @ [a_type a])"
    unfolding h_def using assms by (rule push_history_last3(1))
  have c3: "score_of t (snd (scoreArtifact t a s)) = score_of t s + points_of (a_type a)
          \<and> history_of t (snd (scoreArtifact t a s)) = h"
    if "\<not> (length h = 3 \<and> map Some h = take 3 (targetPattern s))"
  proof -
    have "length (history_of t m) < 3 \<or> map Some (take 3 (history_of t m)) \<noteq> take 3 (targetPattern m)"
      using that hl by (auto simp add: mh mt)
    then have "checkPattern t m = m"
      using pattern_match_iff[of "history_of t m" "targetPattern m"]
      by (auto simp add: checkPattern_def Let_def)
    then show ?thesis by (simp add: sa ms mh)
  qed
  have c4: "score_of t (snd (scoreArtifact t a s)) = score_of t s + points_of (a_type a) + 20
          \<and> redHistory (snd (scoreArtifact t a s)) = []
          \<and> blueHistory (snd (scoreArtifact t a s)) = []"
    if "length h = 3 \<and> map Some h = take 3 (targetPattern s)"
  proof -
    have pm: "pattern_match (history_of t m) (targetPattern m)"
      using that pattern_match_iff[of "history_of t m" "targetPattern m"] by (simp add: mh mt)
    have l3: "\<not> length (history_of t m) < 3" using that by (simp add: mh)
    have "score_of t (checkPattern t m) = score_of t m + 20"
      using pm l3 by (cases t) (simp_all add: checkPattern_def Let_def score_of_def generatePattern_frame)
    moreover have "redHistory (checkPattern t m) = []" "blueHistory (checkPattern t m) = []"
      using pm l3 by (simp_all add: checkPattern_def Let_def)
    ultimately show ?thesis by (simp add: sa ms)
  qed
  show ?thesis using c1 c2 c3 c4 unfolding h_def by blast
qed


text \<open>
  C2, amended.  A history has at most 3 entries in every reachable state, and then
  \<open>scoreArtifact(team, artifact)\<close> sets the artifact's scored flag, adds 5 points for a purple and 10 for a
  green artifact and appends the type to the team's history, keeping the 3 most recent
  entries in order; then \<open>checkPattern\<close> runs.  If that history does not match the
  target pattern, the score has grown by exactly the points and the history is the one
  just described; if it matches, the score has grown by the points plus 20 and both
  histories are empty.
\<close>

theorem scoreArtifact_effect:
  "(reachable s \<longrightarrow> length (history_of t s) \<le> 3) \<and>
   (length (history_of t s) \<le> 3 \<longrightarrow>
     (let h = drop (length (history_of t s @ [a_type a]) - 3) (history_of t s @ [a_type a]);
          points = (if a_type a = Purple then 5 else 10);
          s' = snd (scoreArtifact t a s)
      in scored (fst (scoreArtifact t a s)) \<and>
         (\<not> (length h = 3 \<and> map Some h = take 3 (targetPattern s))
            \<longrightarrow> score_of t s' = score_of t s + points \<and> history_of t s' = h) \<and>
         (length h = 3 \<and> map Some h = take 3 (targetPattern s)
            \<longrightarrow> score_of t s' = score_of t s + points + 20 \<and>
                redHistory s' = [] \<and> blueHistory s' = [])))"
proof -
  have r: "reachable s \<longrightarrow> length (history_of t s) \<le> 3"
    using reachable_histories[of s] by (cases t) (auto simp add: histories_ok_def history_of_def)
  have e: "let h = drop (length (history_of t s @ [a_type a]) - 3) (history_of t s @ [a_type a]);
          points = (if a_type a = Purple then 5 else 10);
          s' = snd (scoreArtifact t a s)
      in scored (fst (scoreArtifact t a s)) \<and>
         (\<not> (length h = 3 \<and> map Some h = take 3 (targetPattern s))
            \<longrightarrow> score_of t s' = score_of t s + points \<and> history_of t s' = h) \<and>
         (length h = 3 \<and> map Some h = take 3 (targetPattern s)
            \<longrightarrow> score_of t s' = score_of t s + points + 20 \<and>
                redHistory s' = [] \<and> blueHistory s' = [])"
    if l: "length (history_of t s) \<le> 3"
  proof -
    have p: "push_history (history_of t s) (a_type a)
      = drop (length (history_of t s @ [a_type a]) - 3) (history_of t s @ [a_type a])"
      using l by (rule push_history_last3(1))
    show ?thesis
      using scoreArtifact_then_checkPattern[OF l, of a]
      unfolding Let_def p points_of_def by blast
  qed
  show ?thesis using r e by blast
qed

theorem scoreArtifact_effect_witness:
  "reachable (initial_gameState (\<lambda>n. 0) [] True) \<and>
   length (history_of Blue (demo_state\<lparr>blueHistory := [Green, Green, Purple]\<rparr>)) \<le> 3 \<and>
   blueScore (snd (scoreArtifact Blue demo_purple (demo_state\<lparr>blueHistory := [Green, Green, Purple]\<rparr>))) = 5 \<and>
   blueHistory (snd (scoreArtifact Blue demo_purple (demo_state\<lparr>blueHistory := [Green, Green, Purple]\<rparr>)))
     = [Green, Purple, Purple] \<and>
   length (history_of Red (demo_state\<lparr>redHistory := [Purple, Green]\<rparr>)) \<le> 3 \<and>
   redScore (snd (scoreArtifact Red demo_purple (demo_state\<lparr>redHistory := [Purple, Green]\<rparr>))) = 25"
  using reach_init[of "\<lambda>n. 0" "[]" True]
    scoreArtifact_effect[where s = "initial_gameState (\<lambda>n. 0) [] True" and t = Red and a = demo_purple]
    scoreArtifact_effect[where t = Blue and s = "demo_state\<lparr>blueHistory := [Green, Green, Purple]\<rparr>" and a = demo_purple]
    scoreArtifact_effect[where t = Red and s = "demo_state\<lparr>redHistory := [Purple, Green]\<rparr>" and a = demo_purple]
  by (simp add: history_of_def score_of_def demo_purple_def
      new_Artifact_def demo_state_def initial_gameState_def Let_def)

subsection \<open>C3: the match clock\<close>

text \<open>
  C3.  The script binds \<open>gameState\<close> and not \<open>gamestate\<close>.  So, wherever the missing
  brace of \<open>update\<close> is put, a step of a running match taken 1000 ms or more after
  \<open>lastTime\<close> decrements \<open>timeLeft\<close> by 1 and then ends in a ReferenceError, with
  \<open>lastTime\<close> as it was: the assignment \<open>gameState.lastTime = Date.now()\<close> of line 309
  comes after the throw.  So it is at the first tick of a match started at time 0,
  stepped at time 1000: \<open>timeLeft\<close> is 119 and \<open>lastTime\<close> still 0.  (The exception
  leaves the frame callback before \<open>draw()\<close>, which alone requests the next frame.)
\<close>

theorem update_first_tick:
  "resolves ''gameState'' \<and> \<not> resolves ''gamestate'' \<and>
   (running s \<and> now - lastTime s \<ge> 1000 \<longrightarrow>
     update rest after now input s = Threw ReferenceError (s\<lparr>timeLeft := timeLeft s - 1\<rparr>) \<and>
     timeLeft (state_of (update rest after now input s)) = timeLeft s - 1 \<and>
     lastTime (state_of (update rest after now input s)) = lastTime s)"
proof -
  have "update rest after now input s = Threw ReferenceError (s\<lparr>timeLeft := timeLeft s - 1\<rparr>)"
    if "running s" "now - lastTime s \<ge> 1000"
    using that by (rule update_tick)
  then show ?thesis using gamestate_unbound by auto
qed

theorem update_first_tick_witness:
  "reachable demo_started \<and> running demo_started \<and> timeLeft demo_started = 120 \<and>
   lastTime demo_started = 0 \<and>
   update (frame_rest (\<lambda>k. False)) Normal 1000 (\<lambda>k. False) demo_started
     = Threw ReferenceError (demo_started\<lparr>timeLeft := 119\<rparr>) \<and>
   update (\<lambda>s. s) Normal 1000 (\<lambda>k. False) demo_started
     = Threw ReferenceError (demo_started\<lparr>timeLeft := 119\<rparr>) \<and>
   timeLeft (state_of (update (frame_rest (\<lambda>k. False)) Normal 1000 (\<lambda>k. False) demo_started)) = 119 \<and>
   lastTime (state_of (update (frame_rest (\<lambda>k. False)) Normal 1000 (\<lambda>k. False) demo_started)) = 0"
proof -
  have r: "reachable demo_started"
    unfolding demo_started_def by (rule reach_start[OF reach_init])
  have c: "running demo_started \<and> timeLeft demo_started = 120 \<and> lastTime demo_started = 0"
    unfolding demo_started_def by (rule startGame_clock)
  show ?thesis
    using r c
      update_first_tick[where s = demo_started and now = 1000 and rest = "frame_rest (\<lambda>k. False)"
        and after = Normal and input = "\<lambda>k. False"]
      update_first_tick[where s = demo_started and now = 1000 and rest = "\<lambda>s. s"
        and after = Normal and input = "\<lambda>k. False"]
    by simp
qed

subsection \<open>C6: the recoil of a shot\<close>

text \<open>
  C6.  The shoot branch subtracts from the robot's velocity the heading direction scaled
  by 3, a vector of magnitude 3 and not 0.2: \<open>dir\<close> has been scaled by 15 in place
  when the recoil is computed from it.  The robot at rest heading along the x axis ends
  with the velocity \<open>(-3, 0)\<close>, and the artifact it releases has the velocity
  \<open>(15, 0)\<close>.
\<close>

theorem shoot_recoil_is_three:
  "r_vel (fst (Robot_shoot i rest r s))
     = Vector2_sub (r_vel r) (Vector2_mult (Vector2 (cos (angle r)) (sin (angle r))) 3) \<and>
   Vector2_mag (Vector2_mult (Vector2 (cos (angle r)) (sin (angle r))) 3) = 3 \<and>
   inventory demo_robot = [0] \<and> angle demo_robot = 0 \<and> r_vel demo_robot = Vector2 0 0 \<and>
   r_vel (fst (Robot_action demo_robot (demo_state\<lparr>artifacts := [demo_held]\<rparr>))) = Vector2 (- 3) 0 \<and>
   a_vel (artifacts (snd (Robot_action demo_robot (demo_state\<lparr>artifacts := [demo_held]\<rparr>))) ! 0)
     = Vector2 15 0"
proof -
  have a: "Robot_action demo_robot (demo_state\<lparr>artifacts := [demo_held]\<rparr>)
     = Robot_shoot 0 [] demo_robot (demo_state\<lparr>artifacts := [demo_held]\<rparr>)"
    by (simp add: Robot_action_def demo_robot_def new_Robot_def demo_held_def new_Artifact_def
        MAX_INVENTORY_def)
  have b: "a_vel (artifacts (snd (Robot_shoot 0 [] demo_robot (demo_state\<lparr>artifacts := [demo_held]\<rparr>))) ! 0)
     = Vector2 15 0"
    by (simp add: Robot_shoot_def Let_def spawnParticles_frame demo_robot_def new_Robot_def
        Vector2_mult_def)
  have c: "r_vel (fst (Robot_shoot 0 [] demo_robot (demo_state\<lparr>artifacts := [demo_held]\<rparr>)))
     = Vector2 (- 3) 0"
    by (simp add: Robot_shoot_vel demo_robot_def new_Robot_def Vector2_mult_def Vector2_sub_def)
  show ?thesis
    using mag_heading[of "angle r" 3] b c
    by (simp add: Robot_shoot_vel a) (simp add: demo_robot_def new_Robot_def)
qed

subsection \<open>C7: the action on an empty inventory\<close>

text \<open>
  C7.  When the robot's inventory is empty and every artifact is held, scored or not
  nearer than \<open>ROBOT_SIZE + 20\<close>, \<open>Robot.action\<close> returns the robot and the state as
  they were; \<open>Robot.update\<close>, with the action key down and no cooldown pending, then
  differs from the moved robot in the cooldown only (15, decremented to 14) and leaves the
  state as it was.  An inventory of at most 3 entries has at most 3 after an action and
  after an update, and in every reachable state each robot holds at most 3.
\<close>

theorem action_on_empty_inventory:
  "(inventory r = [] \<and>
    (\<forall>a\<in>set (artifacts s). held a \<or> scored a \<or> \<not> Vector2_dist (r_pos r) (a_pos a) < ROBOT_SIZE + 20)
      \<longrightarrow> Robot_action r s = (r, s)) \<and>
   (inventory r = [] \<and>
    (\<forall>a\<in>set (artifacts s). held a \<or> scored a \<or>
        \<not> Vector2_dist (r_pos (Robot_move input r)) (a_pos a) < ROBOT_SIZE + 20) \<and>
    input (k_action (controls r)) \<and> cooldown r \<le> 0
      \<longrightarrow> Robot_update input r s = ((Robot_move input r)\<lparr>cooldown := 14\<rparr>, s)) \<and>
   (length (inventory r) \<le> 3
      \<longrightarrow> length (inventory (fst (Robot_action r s))) \<le> 3 \<and>
          length (inventory (fst (Robot_update input r s))) \<le> 3) \<and>
   (reachable s \<longrightarrow> (\<forall>r'\<in>set (robots s). length (inventory r') \<le> 3))"
proof (intro conjI impI)
  assume a: "inventory r = [] \<and>
    (\<forall>a\<in>set (artifacts s). held a \<or> scored a \<or> \<not> Vector2_dist (r_pos r) (a_pos a) < ROBOT_SIZE + 20)"
  then have "intake_scan (r_pos r) (artifacts s) = None" by (simp add: intake_scan_None_iff)
  with a show "Robot_action r s = (r, s)" by (simp add: Robot_action_def)
next
  assume a: "inventory r = [] \<and>
    (\<forall>a\<in>set (artifacts s). held a \<or> scored a \<or>
        \<not> Vector2_dist (r_pos (Robot_move input r)) (a_pos a) < ROBOT_SIZE + 20) \<and>
    input (k_action (controls r)) \<and> cooldown r \<le> 0"
  then have "intake_scan (r_pos (Robot_move input r)) (artifacts s) = None"
    by (simp add: intake_scan_None_iff)
  then have "Robot_action (Robot_move input r) s = (Robot_move input r, s)"
    using a by (simp add: Robot_action_def Robot_move_fields)
  then show "Robot_update input r s = ((Robot_move input r)\<lparr>cooldown := 14\<rparr>, s)"
    using a by (simp add: Robot_update_def Let_def Robot_move_fields)
next
  assume "length (inventory r) \<le> 3"
  then show "length (inventory (fst (Robot_action r s))) \<le> 3"
    by (rule Robot_action_inventory)
next
  assume "length (inventory r) \<le> 3"
  then show "length (inventory (fst (Robot_update input r s))) \<le> 3"
    by (rule Robot_update_inventory)
next
  assume "reachable s"
  then show "\<forall>r'\<in>set (robots s). length (inventory r') \<le> 3"
    by (rule reachable_inventory_bound)
qed

theorem action_on_empty_inventory_witness:
  "inventory demo_idle_robot = [] \<and> cooldown demo_idle_robot \<le> 0 \<and>
   Robot_action demo_idle_robot (demo_state\<lparr>artifacts := [demo_held]\<rparr>)
     = (demo_idle_robot, demo_state\<lparr>artifacts := [demo_held]\<rparr>) \<and>
   Robot_update (\<lambda>k. k = ''KeyF'') demo_idle_robot (demo_state\<lparr>artifacts := [demo_held]\<rparr>)
     = ((Robot_move (\<lambda>k. k = ''KeyF'') demo_idle_robot)\<lparr>cooldown := 14\<rparr>,
        demo_state\<lparr>artifacts := [demo_held]\<rparr>) \<and>
   length (inventory (fst (Robot_action demo_robot (demo_state\<lparr>artifacts := [demo_held]\<rparr>)))) \<le> 3 \<and>
   reachable (initial_gameState (\<lambda>n. 0) [] True) \<and>
   length (inventory (initial_robots ! 0)) \<le> 3"
proof -
  have r: "reachable (initial_gameState (\<lambda>n. 0) [] True)" by (rule reach_init)
  show ?thesis
    using action_on_empty_inventory[of demo_idle_robot "demo_state\<lparr>artifacts := [demo_held]\<rparr>"
        "\<lambda>k. k = ''KeyF''"]
      action_on_empty_inventory[of demo_robot "demo_state\<lparr>artifacts := [demo_held]\<rparr>" "\<lambda>k. False"]
      action_on_empty_inventory[of demo_idle_robot "initial_gameState (\<lambda>n. 0) [] True" "\<lambda>k. False"] r
    by (simp add: demo_idle_robot_def demo_robot_def new_Robot_def demo_held_def new_Artifact_def
        red_controls_def initial_gameState_def initial_robots_def)
qed

subsection \<open>C8: robots stay inside the field\<close>

text \<open>
  C8.  After \<open>Robot.update\<close>, from any robot, input and state, the robot's position is
  the old position plus the new velocity, clamped (the velocity is not reflected): each
  coordinate lies between \<open>ROBOT_SIZE\<close> and the field's dimension less
  \<open>ROBOT_SIZE\<close>, hence between half the robot's size and the dimension less half
  the robot's size.
\<close>

theorem Robot_update_in_field:
  "r_pos (fst (Robot_update input r s)) =
     Vector2 (max ROBOT_SIZE (min (FIELD_WIDTH - ROBOT_SIZE)
                (vec_x (r_pos r) + vec_x (r_vel (Robot_move input r)))))
             (max ROBOT_SIZE (min (FIELD_HEIGHT - ROBOT_SIZE)
                (vec_y (r_pos r) + vec_y (r_vel (Robot_move input r))))) \<and>
   ROBOT_SIZE \<le> vec_x (r_pos (fst (Robot_update input r s))) \<and>
   vec_x (r_pos (fst (Robot_update input r s))) \<le> FIELD_WIDTH - ROBOT_SIZE \<and>
   ROBOT_SIZE \<le> vec_y (r_pos (fst (Robot_update input r s))) \<and>
   vec_y (r_pos (fst (Robot_update input r s))) \<le> FIELD_HEIGHT - ROBOT_SIZE \<and>
   ROBOT_SIZE / 2 \<le> vec_x (r_pos (fst (Robot_update input r s))) \<and>
   vec_x (r_pos (fst (Robot_update input r s))) \<le> FIELD_WIDTH - ROBOT_SIZE / 2 \<and>
   ROBOT_SIZE / 2 \<le> vec_y (r_pos (fst (Robot_update input r s))) \<and>
   vec_y (r_pos (fst (Robot_update input r s))) \<le> FIELD_HEIGHT - ROBOT_SIZE / 2"
proof -
  define p where "p = r_pos (fst (Robot_update input r s))"
  have m: "p = r_pos (Robot_move input r)"
    unfolding p_def by (rule Robot_update_pos)
  have c: "p = Vector2 (max ROBOT_SIZE (min (FIELD_WIDTH - ROBOT_SIZE)
                (vec_x (r_pos r) + vec_x (r_vel (Robot_move input r)))))
             (max ROBOT_SIZE (min (FIELD_HEIGHT - ROBOT_SIZE)
                (vec_y (r_pos r) + vec_y (r_vel (Robot_move input r)))))"
    unfolding m by (rule Robot_move_clamp)
  have x: "ROBOT_SIZE \<le> vec_x p \<and> vec_x p \<le> FIELD_WIDTH - ROBOT_SIZE"
    using arg_cong[OF c, of vec_x] by (simp add: FIELD_WIDTH_def ROBOT_SIZE_def)
  have y: "ROBOT_SIZE \<le> vec_y p \<and> vec_y p \<le> FIELD_HEIGHT - ROBOT_SIZE"
    using arg_cong[OF c, of vec_y] by (simp add: FIELD_HEIGHT_def ROBOT_SIZE_def)
  have h: "ROBOT_SIZE / 2 \<le> ROBOT_SIZE" by (simp add: ROBOT_SIZE_def)
  have x2: "ROBOT_SIZE / 2 \<le> vec_x p \<and> vec_x p \<le> FIELD_WIDTH - ROBOT_SIZE / 2"
    using x h by linarith
  have y2: "ROBOT_SIZE / 2 \<le> vec_y p \<and> vec_y p \<le> FIELD_HEIGHT - ROBOT_SIZE / 2"
    using y h by linarith
  show ?thesis
    using c x y x2 y2 unfolding p_def by blast
qed

subsection \<open>C9: free, held, scored\<close>

text \<open>
  C9.  In every reachable state no artifact is both held and scored, so each is in
  exactly one of the states free (neither flag), held, scored.  Through any sequence of
  steps of a match an artifact that is scored stays in the collection, at its place, and
  stays scored; \<open>startGame\<close> does not reset the flag but replaces the collection by new
  artifacts, none held or scored.  A scored artifact is left alone by \<open>Artifact.update\<close>
  and by the callback of the frame (motion, push by robots, goal check), and the intake
  never picks one.
\<close>

theorem artifact_states:
  "(reachable s \<longrightarrow> (\<forall>a\<in>set (artifacts s). \<not> (held a \<and> scored a))) \<and>
   (frame_step\<^sup>*\<^sup>* s s' \<and> i < length (artifacts s) \<and> scored (artifacts s ! i)
      \<longrightarrow> i < length (artifacts s') \<and> scored (artifacts s' ! i)) \<and>
   (\<forall>a\<in>set (artifacts (state_of (startGame now s))). \<not> held a \<and> \<not> scored a) \<and>
   (scored a \<longrightarrow> Artifact_update a = a) \<and>
   (scored (artifacts s ! i) \<longrightarrow> update_artifact i s = s) \<and>
   (intake_scan p (artifacts s) = Some i \<longrightarrow> \<not> scored (artifacts s ! i))"
proof (intro conjI impI)
  assume "reachable s"
  then show "\<forall>a\<in>set (artifacts s). \<not> (held a \<and> scored a)" by (rule reachable_exclusive)
next
  assume a: "frame_step\<^sup>*\<^sup>* s s' \<and> i < length (artifacts s) \<and> scored (artifacts s ! i)"
  then have "i < length (artifacts s') \<and> scored (artifacts s' ! i)"
    using scored_monotone_steps[of s s' i] by blast
  then show "i < length (artifacts s')" "scored (artifacts s' ! i)" by simp_all
next
  show "\<forall>a\<in>set (artifacts (state_of (startGame now s))). \<not> held a \<and> \<not> scored a"
    using spawnArtifacts_new by (simp add: startGame_state(1))
next
  assume "scored a"
  then show "Artifact_update a = a" by (rule Artifact_update_scored)
next
  assume "scored (artifacts s ! i)"
  then show "update_artifact i s = s" by (rule update_artifact_scored)
next
  assume "intake_scan p (artifacts s) = Some i"
  then show "\<not> scored (artifacts s ! i)" using intake_scan_Some by blast
qed

theorem artifact_states_witness:
  "reachable (state_of (startGame 0 (initial_gameState (\<lambda>n. 0) [] True))) \<and>
   length (artifacts (state_of (startGame 0 (initial_gameState (\<lambda>n. 0) [] True)))) = 36 \<and>
   list_all (\<lambda>a. \<not> (held a \<and> scored a))
     (artifacts (state_of (startGame 0 (initial_gameState (\<lambda>n. 0) [] True)))) \<and>
   frame_step\<^sup>*\<^sup>* (demo_state\<lparr>artifacts := [demo_scored]\<rparr>)
      (update_artifact 0 (update_robot (\<lambda>k. True) 0 (demo_state\<lparr>artifacts := [demo_scored]\<rparr>))) \<and>
   scored (artifacts (demo_state\<lparr>artifacts := [demo_scored]\<rparr>) ! 0) \<and>
   scored (artifacts (update_artifact 0 (update_robot (\<lambda>k. True) 0
      (demo_state\<lparr>artifacts := [demo_scored]\<rparr>))) ! 0) \<and>
   Artifact_update demo_scored = demo_scored \<and>
   update_artifact 0 (demo_state\<lparr>artifacts := [demo_scored]\<rparr>) = demo_state\<lparr>artifacts := [demo_scored]\<rparr> \<and>
   intake_scan (Vector2 60 700) [demo_scored, demo_purple] = Some 1 \<and>
   \<not> scored ([demo_scored, demo_purple] ! 1)"
proof -
  let ?s = "demo_state\<lparr>artifacts := [demo_scored]\<rparr>"
  let ?g = "state_of (startGame 0 (initial_gameState (\<lambda>n. 0) [] True))"
  have r: "reachable ?g" by (rule reach_start[OF reach_init])
  have n: "length (artifacts ?g) = 36" by (rule startGame_count)
  have l: "0 < length (robots ?s)" "0 < length (artifacts ?s)"
    by (simp_all add: demo_state_def initial_gameState_def initial_robots_def)
  have s1: "frame_step ?s (update_robot (\<lambda>k. True) 0 ?s)"
    using l(1) by (rule step_robot)
  have "0 < length (artifacts (update_robot (\<lambda>k. True) 0 ?s))"
    using scored_monotone_step[OF s1, of 0] by (simp add: demo_scored_def)
  then have s2: "frame_step (update_robot (\<lambda>k. True) 0 ?s)
      (update_artifact 0 (update_robot (\<lambda>k. True) 0 ?s))"
    by (rule step_artifact)
  have st: "frame_step\<^sup>*\<^sup>* ?s (update_artifact 0 (update_robot (\<lambda>k. True) 0 ?s))"
    using s1 s2 by (meson rtranclp.rtrancl_into_rtrancl rtranclp.rtrancl_refl)
  have sc: "intake_scan (Vector2 60 700) [demo_scored, demo_purple] = Some 1"
    by (simp add: demo_scored_def demo_purple_def new_Artifact_def Vector2_dist_def ROBOT_SIZE_def)
  show ?thesis
    using r n st sc
      artifact_states[where s = ?g and s' = ?g
        and i = 0 and a = demo_scored and p = "Vector2 60 700" and now = 0]
      artifact_states[where s = ?s and s' = "update_artifact 0 (update_robot (\<lambda>k. True) 0 ?s)"
        and i = 0 and a = demo_scored and p = "Vector2 60 700" and now = 0]
      artifact_states[where s = "?s\<lparr>artifacts := [demo_scored, demo_purple]\<rparr>"
        and s' = "?s\<lparr>artifacts := [demo_scored, demo_purple]\<rparr>"
        and i = 1 and a = demo_scored and p = "Vector2 60 700" and now = 0]
    by (simp add: demo_scored_def list_all_iff)
qed

subsection \<open>C10: starting a match\<close>

text \<open>
  C10.  With the two robots in place, \<open>startGame\<close> returns normally with the match
  running, both scores 0, \<open>timeLeft\<close> 120, both histories empty, a collection of 24
  purple then 12 green new artifacts (not held, not scored, at rest), a target pattern
  drawn from the next three random values, and the two robots at \<open>(100, 700)\<close> and
  \<open>(1900, 700)\<close> with empty inventories; the velocity, the angle and the cooldown of
  each robot are what they were before.
\<close>

theorem startGame_effect:
  assumes "robots s = r0 # r1 # rs"
  shows "\<exists>s'. startGame now s = Normal s' \<and> running s' \<and>
     redScore s' = 0 \<and> blueScore s' = 0 \<and> timeLeft s' = 120 \<and> lastTime s' = now \<and>
     redHistory s' = [] \<and> blueHistory s' = [] \<and>
     map a_type (artifacts s') = replicate 24 Purple @ replicate 12 Green \<and>
     (\<forall>a\<in>set (artifacts s'). \<not> held a \<and> \<not> scored a \<and> holder a = None \<and> a_vel a = Vector2 0 0) \<and>
     targetPattern s' = [types_at \<lfloor>rng s (rng_pos s + 72) * 2\<rfloor>,
                         types_at \<lfloor>rng s (rng_pos s + 73) * 2\<rfloor>,
                         types_at \<lfloor>rng s (rng_pos s + 74) * 2\<rfloor>] \<and>
     robots s' = r0\<lparr>r_pos := Vector2 100 (FIELD_HEIGHT / 2), inventory := []\<rparr>
               # r1\<lparr>r_pos := Vector2 (FIELD_WIDTH - 100) (FIELD_HEIGHT / 2), inventory := []\<rparr> # rs \<and>
     r_vel (robots s' ! 0) = r_vel r0 \<and> angle (robots s' ! 0) = angle r0 \<and>
     cooldown (robots s' ! 0) = cooldown r0 \<and>
     r_vel (robots s' ! 1) = r_vel r1 \<and> angle (robots s' ! 1) = angle r1 \<and>
     cooldown (robots s' ! 1) = cooldown r1"
proof -
  define s2 where "s2 = s\<lparr>running := True, timeLeft := 120, lastTime := now, redScore := 0,
     blueScore := 0, message_hidden := True\<rparr>"
  define s4 where "s4 = generatePattern (spawnArtifacts s2)"
  define s' where "s' = s4\<lparr>robots := r0\<lparr>r_pos := Vector2 100 (FIELD_HEIGHT / 2), inventory := []\<rparr>
               # r1\<lparr>r_pos := Vector2 (FIELD_WIDTH - 100) (FIELD_HEIGHT / 2), inventory := []\<rparr> # rs,
               redHistory := [], blueHistory := []\<rparr>"
  have r4: "robots s4 = r0 # r1 # rs"
    using assms by (simp add: s4_def s2_def generatePattern_frame spawnArtifacts_frame)
  have sg: "startGame now s = Normal s'"
    using r4 by (simp add: startGame_def Let_def s2_def[symmetric] s4_def[symmetric] s'_def)
  have a4: "artifacts s4 = artifacts (spawnArtifacts s2)"
    by (simp add: s4_def generatePattern_frame)
  have t4: "targetPattern s4 = [types_at \<lfloor>rng s (rng_pos s + 72) * 2\<rfloor>,
                         types_at \<lfloor>rng s (rng_pos s + 73) * 2\<rfloor>,
                         types_at \<lfloor>rng s (rng_pos s + 74) * 2\<rfloor>]"
    by (simp add: s4_def generatePattern_def Math_random_def spawnArtifacts_frame s2_def add.commute)
  have f4: "running s4" "redScore s4 = 0" "blueScore s4 = 0" "timeLeft s4 = 120" "lastTime s4 = now"
    by (simp_all add: s4_def generatePattern_def Math_random_def spawnArtifacts_frame s2_def)
  show ?thesis
    using sg a4 t4 f4 spawnArtifacts_new[of s2]
    by (intro exI[of _ s']) (simp add: s'_def)
qed

theorem startGame_effect_witness:
  "(\<exists>r0 r1. robots demo_lobby = [r0, r1] \<and> r_vel r0 = Vector2 3 4 \<and> cooldown r0 = 7 \<and> inventory r0 = [0]) \<and>
   (\<exists>s'. startGame 5000 demo_lobby = Normal s' \<and> redScore s' = 0 \<and> timeLeft s' = 120 \<and>
      redHistory s' = [] \<and> length (artifacts s') = 36 \<and>
      r_pos (robots s' ! 0) = Vector2 100 700 \<and> inventory (robots s' ! 0) = [] \<and>
      r_vel (robots s' ! 0) = Vector2 3 4 \<and> angle (robots s' ! 0) = 1 \<and> cooldown (robots s' ! 0) = 7)"
proof -
  have r: "robots demo_lobby = [demo_robot\<lparr>r_vel := Vector2 3 4, angle := 1, cooldown := 7\<rparr>,
                 new_Robot Blue 1900 700 COLORS_blue blue_controls]"
    by (simp add: demo_lobby_def)
  from startGame_effect[OF r, of 5000] obtain s' where s':
    "startGame 5000 demo_lobby = Normal s'" "redScore s' = 0" "timeLeft s' = 120" "redHistory s' = []"
    "map a_type (artifacts s') = replicate 24 Purple @ replicate 12 Green"
    "robots s' = (demo_robot\<lparr>r_vel := Vector2 3 4, angle := 1, cooldown := 7\<rparr>)
                   \<lparr>r_pos := Vector2 100 (FIELD_HEIGHT / 2), inventory := []\<rparr>
               # (new_Robot Blue 1900 700 COLORS_blue blue_controls)
                   \<lparr>r_pos := Vector2 (FIELD_WIDTH - 100) (FIELD_HEIGHT / 2), inventory := []\<rparr> # []"
    by blast
  have l: "length (artifacts s') = 36"
    using arg_cong[OF s'(5), of length] by simp
  have "\<exists>r0 r1. robots demo_lobby = [r0, r1] \<and> r_vel r0 = Vector2 3 4 \<and> cooldown r0 = 7 \<and> inventory r0 = [0]"
    by (simp add: r demo_robot_def)
  moreover have "startGame 5000 demo_lobby = Normal s' \<and> redScore s' = 0 \<and> timeLeft s' = 120 \<and>
      redHistory s' = [] \<and> length (artifacts s') = 36 \<and>
      r_pos (robots s' ! 0) = Vector2 100 700 \<and> inventory (robots s' ! 0) = [] \<and>
      r_vel (robots s' ! 0) = Vector2 3 4 \<and> angle (robots s' ! 0) = 1 \<and> cooldown (robots s' ! 0) = 7"
    using s'(1-4) l by (simp add: s'(6) FIELD_HEIGHT_def)
  ultimately show ?thesis by blast
qed

end
